theory Spec2Isabelle
  imports Main "HOL-Library.Char_ord" "HOL-Library.List_Lexorder" "HOL-Library.DAList"
begin

section \<open>Errors\<close>

text \<open>
  Go's \<^verbatim>\<open>error\<close> values, as far as the code under study tells them apart: the three
  wrapper types of package \<^verbatim>\<open>os\<close> that carry an errno (the type switch of
  \<^verbatim>\<open>IsCorruptedMnt\<close>), and the plain errors made by \<^verbatim>\<open>errors.New\<close> and
  \<^verbatim>\<open>fmt.Errorf\<close>. \<open>Errorf s e\<close> is \<^verbatim>\<open>fmt.Errorf\<close> with format text \<open>s\<close> printing
  the error \<open>e\<close>. A nil error is \<open>None\<close>.
\<close>

datatype errno = ENOENT | ENOTCONN | ESTALE | EIO | EACCES | EBUSY | EINVAL | ENOTEMPTY

datatype error =
    PathError errno
  | LinkError errno
  | SyscallError errno
  | ErrorString string
  | Errorf string error

text \<open>\<^verbatim>\<open>os.IsNotExist\<close>: the errno under an \<^verbatim>\<open>os\<close> wrapper is \<^verbatim>\<open>ENOENT\<close>.\<close>

fun os_IsNotExist :: "error option \<Rightarrow> bool" where
  "os_IsNotExist (Some (PathError n)) = (n = ENOENT)"
| "os_IsNotExist (Some (LinkError n)) = (n = ENOENT)"
| "os_IsNotExist (Some (SyscallError n)) = (n = ENOENT)"
| "os_IsNotExist _ = False"

text \<open>
  \<^verbatim>\<open>util.IsCorruptedMnt\<close>: nil is not corrupted; the type switch takes the errno of the
  three \<^verbatim>\<open>os\<close> wrappers, any other error type leaves \<^verbatim>\<open>underlyingError\<close> nil.
\<close>

fun IsCorruptedMnt :: "error option \<Rightarrow> bool" where
  "IsCorruptedMnt None = False"
| "IsCorruptedMnt (Some (PathError n)) = (n = ENOTCONN \<or> n = ESTALE \<or> n = EIO)"
| "IsCorruptedMnt (Some (LinkError n)) = (n = ENOTCONN \<or> n = ESTALE \<or> n = EIO)"
| "IsCorruptedMnt (Some (SyscallError n)) = (n = ENOTCONN \<or> n = ESTALE \<or> n = EIO)"
| "IsCorruptedMnt (Some _) = False"

section \<open>The node: mounter and file system\<close>

text \<open>
  The volume plugins reach the node through \<^verbatim>\<open>mount.Interface\<close> and package \<^verbatim>\<open>os\<close>.
  Neither is implemented in the files under study, so the node is a state \<open>'w\<close> together
  with one function per operation. Queries read the state; the other operations return
  the state they leave behind.
\<close>

record 'w node_ops =
  mounter_IsLikelyNotMountPoint :: "'w \<Rightarrow> string \<Rightarrow> bool \<times> error option"
  mounter_IsNotMountPoint :: "'w \<Rightarrow> string \<Rightarrow> bool \<times> error option"
  mounter_Mount :: "'w \<Rightarrow> string \<Rightarrow> string \<Rightarrow> string \<Rightarrow> string list \<Rightarrow> error option \<times> 'w"
  mounter_Unmount :: "'w \<Rightarrow> string \<Rightarrow> error option \<times> 'w"
  os_Stat :: "'w \<Rightarrow> string \<Rightarrow> error option"
  os_MkdirAll :: "'w \<Rightarrow> string \<Rightarrow> error option \<times> 'w"
  os_Remove :: "'w \<Rightarrow> string \<Rightarrow> error option \<times> 'w"
  volume_SetVolumeOwnership :: "'w \<Rightarrow> string \<Rightarrow> int option \<Rightarrow> error option \<times> 'w"

text \<open>Every operation a function performs is recorded, with its arguments and its result.\<close>

datatype call =
    IsLikelyNotMountPoint_call string bool "error option"
  | IsNotMountPoint_call string bool "error option"
  | Mount_call string string string "string list" "error option"
  | Unmount_call string "error option"
  | Stat_call string "error option"
  | MkdirAll_call string "error option"
  | Remove_call string "error option"
  | SetVolumeOwnership_call string "int option" "error option"

type_synonym 'w run = "'w \<times> call list"

definition IsLikelyNotMountPoint :: "'w node_ops \<Rightarrow> string \<Rightarrow> 'w run \<Rightarrow> (bool \<times> error option) \<times> 'w run" where
  "IsLikelyNotMountPoint ops dir s =
     (case s of (w, tr) \<Rightarrow>
        (case mounter_IsLikelyNotMountPoint ops w dir of (notMnt, err) \<Rightarrow>
           ((notMnt, err), (w, tr @ [IsLikelyNotMountPoint_call dir notMnt err]))))"

definition IsNotMountPoint :: "'w node_ops \<Rightarrow> string \<Rightarrow> 'w run \<Rightarrow> (bool \<times> error option) \<times> 'w run" where
  "IsNotMountPoint ops dir s =
     (case s of (w, tr) \<Rightarrow>
        (case mounter_IsNotMountPoint ops w dir of (notMnt, err) \<Rightarrow>
           ((notMnt, err), (w, tr @ [IsNotMountPoint_call dir notMnt err]))))"

definition Mount :: "'w node_ops \<Rightarrow> string \<Rightarrow> string \<Rightarrow> string \<Rightarrow> string list \<Rightarrow> 'w run \<Rightarrow> error option \<times> 'w run" where
  "Mount ops source target fstype options s =
     (case s of (w, tr) \<Rightarrow>
        (case mounter_Mount ops w source target fstype options of (err, w') \<Rightarrow>
           (err, (w', tr @ [Mount_call source target fstype options err]))))"

definition Unmount :: "'w node_ops \<Rightarrow> string \<Rightarrow> 'w run \<Rightarrow> error option \<times> 'w run" where
  "Unmount ops target s =
     (case s of (w, tr) \<Rightarrow>
        (case mounter_Unmount ops w target of (err, w') \<Rightarrow>
           (err, (w', tr @ [Unmount_call target err]))))"

definition Stat :: "'w node_ops \<Rightarrow> string \<Rightarrow> 'w run \<Rightarrow> error option \<times> 'w run" where
  "Stat ops path s =
     (case s of (w, tr) \<Rightarrow>
        (let err = os_Stat ops w path in (err, (w, tr @ [Stat_call path err]))))"

definition MkdirAll :: "'w node_ops \<Rightarrow> string \<Rightarrow> 'w run \<Rightarrow> error option \<times> 'w run" where
  "MkdirAll ops path s =
     (case s of (w, tr) \<Rightarrow>
        (case os_MkdirAll ops w path of (err, w') \<Rightarrow>
           (err, (w', tr @ [MkdirAll_call path err]))))"

definition Remove :: "'w node_ops \<Rightarrow> string \<Rightarrow> 'w run \<Rightarrow> error option \<times> 'w run" where
  "Remove ops path s =
     (case s of (w, tr) \<Rightarrow>
        (case os_Remove ops w path of (err, w') \<Rightarrow>
           (err, (w', tr @ [Remove_call path err]))))"

definition SetVolumeOwnership :: "'w node_ops \<Rightarrow> string \<Rightarrow> int option \<Rightarrow> 'w run \<Rightarrow> error option \<times> 'w run" where
  "SetVolumeOwnership ops path fsGroup s =
     (case s of (w, tr) \<Rightarrow>
        (case volume_SetVolumeOwnership ops w path fsGroup of (err, w') \<Rightarrow>
           (err, (w', tr @ [SetVolumeOwnership_call path fsGroup err]))))"

fun is_Mount_call :: "call \<Rightarrow> bool" where
  "is_Mount_call (Mount_call _ _ _ _ _) = True"
| "is_Mount_call _ = False"

fun is_Unmount_call :: "call \<Rightarrow> bool" where
  "is_Unmount_call (Unmount_call _ _) = True"
| "is_Unmount_call _ = False"

fun is_MkdirAll_call :: "call \<Rightarrow> bool" where
  "is_MkdirAll_call (MkdirAll_call _ _) = True"
| "is_MkdirAll_call _ = False"

fun is_SetVolumeOwnership_call :: "call \<Rightarrow> bool" where
  "is_SetVolumeOwnership_call (SetVolumeOwnership_call _ _ _) = True"
| "is_SetVolumeOwnership_call _ = False"

text \<open>The calls of a trace that follow the first occurrence of a given call.\<close>

definition calls_after :: "call \<Rightarrow> call list \<Rightarrow> call list" where
  "calls_after c tr = tl (dropWhile (\<lambda>x. x \<noteq> c) tr)"

section \<open>Mount options (package util)\<close>

text \<open>
  \<^verbatim>\<open>JoinMountOptions\<close> inserts the non-empty user options and all system options into a
  string set and returns \<^verbatim>\<open>List()\<close>, the sorted members.
\<close>

definition JoinMountOptions :: "string list \<Rightarrow> string list \<Rightarrow> string list" where
  "JoinMountOptions userOptions systemOptions =
     sort (remdups (filter (\<lambda>mountOption. 0 < length mountOption) userOptions @ systemOptions))"

section \<open>The cloud provider\<close>

text \<open>
  \<^verbatim>\<open>cloudprovider.Interface\<close>, as far as \<^verbatim>\<open>GetVolumeLimits\<close> uses it. \<^verbatim>\<open>Instances()\<close>
  returns an interface and an ok flag: \<open>None\<close> is not-ok. \<^verbatim>\<open>InstanceType\<close> returns a
  string and an error.
\<close>

record cloudprovider_Instances =
  InstanceType :: "string \<Rightarrow> string \<times> error option"

record cloudprovider_Interface =
  ProviderName :: string
  Instances :: "cloudprovider_Instances option"

section \<open>The volume host\<close>

text \<open>
  What the plugins ask of \<^verbatim>\<open>volume.VolumeHost\<close> and of the path packages. The host, the
  constant \<^verbatim>\<open>mount.MountsInGlobalPDPath\<close> and \<^verbatim>\<open>Join\<close> are not in the files under
  study and are taken as given.
\<close>

record volume_host =
  GetPluginDir :: "string \<Rightarrow> string"
  GetPodVolumeDir :: "string \<Rightarrow> string \<Rightarrow> string \<Rightarrow> string"
  GetCloudProvider :: "cloudprovider_Interface option"
  GetNodeName :: string
  EscapeQualifiedNameForDisk :: "string \<Rightarrow> string"
  MountsInGlobalPDPath :: string
  path_Join :: "string list \<Rightarrow> string"

text \<open>\<^verbatim>\<open>strings.Replace(s, old, new, -1)\<close> for a non-empty \<open>old\<close>.\<close>

fun strings_ReplaceAll :: "string \<Rightarrow> string \<Rightarrow> string \<Rightarrow> string" where
  "strings_ReplaceAll [] old new = []"
| "strings_ReplaceAll (c # cs) old new =
     (if old \<noteq> [] \<and> take (length old) (c # cs) = old
      then new @ strings_ReplaceAll (drop (length old) (c # cs)) old new
      else c # strings_ReplaceAll cs old new)"

section \<open>Strings (packages strings and strconv)\<close>

text \<open>\<^verbatim>\<open>strings.HasPrefix\<close>.\<close>

definition strings_HasPrefix :: "string \<Rightarrow> string \<Rightarrow> bool" where
  "strings_HasPrefix s pre = (take (length pre) s = pre)"

text \<open>
  \<^verbatim>\<open>strings.Split\<close> at a separator of one character: the pieces between the
  separators, one piece (the empty string) for the empty string.
\<close>

fun strings_Split :: "string \<Rightarrow> char \<Rightarrow> string list" where
  "strings_Split [] sep = [[]]"
| "strings_Split (c # cs) sep =
     (if c = sep then [] # strings_Split cs sep
      else (case strings_Split cs sep of
              [] \<Rightarrow> [[c]]
            | piece # pieces \<Rightarrow> (c # piece) # pieces))"

definition digit_of :: "char \<Rightarrow> nat option" where
  "digit_of c =
     (let n = (of_char c :: nat)
      in if 48 \<le> n \<and> n \<le> 57 then Some (n - 48) else None)"

fun parse_digits :: "string \<Rightarrow> nat \<Rightarrow> nat option" where
  "parse_digits [] acc = Some acc"
| "parse_digits (c # cs) acc =
     (case digit_of c of None \<Rightarrow> None | Some d \<Rightarrow> parse_digits cs (10 * acc + d))"

text \<open>
  \<^verbatim>\<open>strconv.Atoi\<close> on a 64-bit platform: an optional sign, at least one digit, only
  digits, and a value that fits \<^verbatim>\<open>int\<close>; \<open>None\<close> is a non-nil error.
\<close>

definition strconv_Atoi :: "string \<Rightarrow> int option" where
  "strconv_Atoi s =
     (let neg = (s \<noteq> [] \<and> hd s = CHR ''-'');
          body = (if s \<noteq> [] \<and> (hd s = CHR ''-'' \<or> hd s = CHR ''+'') then tl s else s)
      in if body = [] then None
         else (case parse_digits body 0 of
                 None \<Rightarrow> None
               | Some n \<Rightarrow>
                   (let v = (if neg then - int n else int n)
                    in if - (2 ^ 63) \<le> v \<and> v < 2 ^ 63 then Some v else None)))"

section \<open>Attachable-volume limits\<close>

text \<open>
  The keys, the EBS defaults, the Nitro pattern and the provider names are constants of
  packages that are not among the files under study (\<^verbatim>\<open>volume/util\<close>, the \<^verbatim>\<open>aws\<close> and
  \<^verbatim>\<open>gce\<close> cloud providers); they are taken as given. \<open>EBSNitroLimitRegex_matches\<close> is
  \<^verbatim>\<open>regexp.MatchString(util.EBSNitroLimitRegex, _)\<close>, its error dropped as in the source.
\<close>

record limit_consts =
  EBSVolumeLimitKey :: string
  DefaultMaxEBSVolumes :: int
  DefaultMaxEBSNitroVolumeLimit :: int
  EBSNitroLimitRegex_matches :: "string \<Rightarrow> bool"
  GCEVolumeLimitKey :: string
  aws_ProviderName :: string
  gcecloud_ProviderName :: string

definition OneCPU :: int where "OneCPU = 1"
definition EightCPUs :: int where "EightCPUs = 8"
definition VolumeLimit16 :: int where "VolumeLimit16 = 16"
definition VolumeLimit32 :: int where "VolumeLimit32 = 32"
definition VolumeLimit64 :: int where "VolumeLimit64 = 64"
definition VolumeLimit128 :: int where "VolumeLimit128 = 128"

text \<open>
  \<^verbatim>\<open>GetVolumeLimits\<close> returns a map and an error; the nil map of the error returns is
  \<open>None\<close>.
\<close>

definition awsebs_GetVolumeLimits ::
  "limit_consts \<Rightarrow> volume_host \<Rightarrow> (string \<rightharpoonup> int) option \<times> error option" where
  "awsebs_GetVolumeLimits k host =
     (let volumeLimits = [EBSVolumeLimitKey k \<mapsto> DefaultMaxEBSVolumes k] in
      case GetCloudProvider host of
        None \<Rightarrow> (None, Some (ErrorString ''no cloudprovider present''))
      | Some cloud \<Rightarrow>
          if ProviderName cloud \<noteq> aws_ProviderName k
          then (None, Some (ErrorString (''expected aws cloud, found '' @ ProviderName cloud)))
          else
            (case Instances cloud of
               None \<Rightarrow> (Some volumeLimits, None)
             | Some instances \<Rightarrow>
                 (case InstanceType instances (GetNodeName host) of (instanceType, err) \<Rightarrow>
                    if err \<noteq> None then (Some volumeLimits, None)
                    else if EBSNitroLimitRegex_matches k instanceType
                    then (Some (volumeLimits(EBSVolumeLimitKey k \<mapsto> DefaultMaxEBSNitroVolumeLimit k)), None)
                    else (Some volumeLimits, None))))"

definition gcepd_GetVolumeLimits ::
  "limit_consts \<Rightarrow> volume_host \<Rightarrow> (string \<rightharpoonup> int) option \<times> error option" where
  "gcepd_GetVolumeLimits k host =
     (let volumeLimits = [GCEVolumeLimitKey k \<mapsto> VolumeLimit16] in
      case GetCloudProvider host of
        None \<Rightarrow> (None, Some (ErrorString ''no cloudprovider present''))
      | Some cloud \<Rightarrow>
          if ProviderName cloud \<noteq> gcecloud_ProviderName k
          then (None, Some (ErrorString (''expected gce cloud got '' @ ProviderName cloud)))
          else
            (case Instances cloud of
               None \<Rightarrow> (Some volumeLimits, None)
             | Some instances \<Rightarrow>
                 (case InstanceType instances (GetNodeName host) of (instanceType, err) \<Rightarrow>
                    if err \<noteq> None then (Some volumeLimits, None)
                    else if strings_HasPrefix instanceType ''n1-'' then
                      (let splits = strings_Split instanceType (CHR ''-'') in
                       if length splits < 3 then (Some volumeLimits, None)
                       else
                         (let last = splits ! 2 in
                          case strconv_Atoi last of
                            Some num \<Rightarrow>
                              if num = OneCPU
                              then (Some (volumeLimits(GCEVolumeLimitKey k \<mapsto> VolumeLimit32)), None)
                              else if num < EightCPUs
                              then (Some (volumeLimits(GCEVolumeLimitKey k \<mapsto> VolumeLimit64)), None)
                              else (Some (volumeLimits(GCEVolumeLimitKey k \<mapsto> VolumeLimit128)), None)
                          | None \<Rightarrow> (Some volumeLimits, None)))
                    else (Some volumeLimits, None))))"

section \<open>AWS EBS mounter (pkg/volume/awsebs/aws\_ebs.go)\<close>

definition awsElasticBlockStorePluginName :: string where
  "awsElasticBlockStorePluginName = ''kubernetes.io/aws-ebs''"

record awsElasticBlockStoreMounter =
  aws_podUID :: string
  aws_volName :: string
  aws_volumeID :: string
  aws_partition :: string
  aws_fsType :: string
  aws_readOnly :: bool
  aws_mountOptions :: "string list"

definition awsebs_getPath :: "string \<Rightarrow> string \<Rightarrow> volume_host \<Rightarrow> string" where
  "awsebs_getPath uid volName host =
     GetPodVolumeDir host uid (EscapeQualifiedNameForDisk host awsElasticBlockStorePluginName) volName"

definition awsebs_GetPath :: "volume_host \<Rightarrow> awsElasticBlockStoreMounter \<Rightarrow> string" where
  "awsebs_GetPath host ebs = awsebs_getPath (aws_podUID ebs) (aws_volName ebs) host"

definition awsebs_makeGlobalPDPath :: "volume_host \<Rightarrow> string \<Rightarrow> string" where
  "awsebs_makeGlobalPDPath host volumeID =
     (let name = strings_ReplaceAll volumeID ''://'' ''/''
      in path_Join host [GetPluginDir host awsElasticBlockStorePluginName, MountsInGlobalPDPath host, name])"

text \<open>
  \<^verbatim>\<open>SetUpAt\<close>. The flag paired with the state after the unmount block says whether the
  block has executed one of its \<^verbatim>\<open>return err\<close> statements; otherwise control falls
  through to \<^verbatim>\<open>os.Remove(dir)\<close>. The results of \<^verbatim>\<open>os.Remove\<close> and of
  \<^verbatim>\<open>volume.SetVolumeOwnership\<close> are dropped, as in the source.
\<close>

definition awsebs_SetUpAt ::
  "'w node_ops \<Rightarrow> volume_host \<Rightarrow> awsElasticBlockStoreMounter \<Rightarrow> string \<Rightarrow> int option \<Rightarrow> 'w run
     \<Rightarrow> error option \<times> 'w run" where
  "awsebs_SetUpAt ops host b dir fsGroup s0 =
     (case IsLikelyNotMountPoint ops dir s0 of ((notMnt, err), s1) \<Rightarrow>
      if err \<noteq> None \<and> \<not> os_IsNotExist err then (err, s1)
      else if \<not> notMnt then (None, s1)
      else
        let globalPDPath = awsebs_makeGlobalPDPath host (aws_volumeID b) in
        (case MkdirAll ops dir s1 of (mkErr, s2) \<Rightarrow>
         if mkErr \<noteq> None then (mkErr, s2)
         else
           let options = [''bind''] @ (if aws_readOnly b then [''ro''] else []);
               mountOptions = JoinMountOptions options (aws_mountOptions b) in
           (case Mount ops globalPDPath dir [] mountOptions s2 of (err, s3) \<Rightarrow>
            if err \<noteq> None then
              (case IsLikelyNotMountPoint ops dir s3 of ((notMnt, mntErr), s4) \<Rightarrow>
               if mntErr \<noteq> None then (err, s4)
               else
                 (case (if \<not> notMnt then
                          (case Unmount ops dir s4 of (mntErr, s5) \<Rightarrow>
                           if mntErr \<noteq> None then (True, s5)
                           else
                             (case IsLikelyNotMountPoint ops dir s5 of ((notMnt, mntErr), s6) \<Rightarrow>
                              if mntErr \<noteq> None then (True, s6)
                              else if \<not> notMnt then (True, s6)
                              else (False, s6)))
                        else (False, s4)) of
                    (returned, s7) \<Rightarrow>
                      if returned then (err, s7)
                      else (case Remove ops dir s7 of (_, s8) \<Rightarrow> (err, s8))))
            else
              (let s4 = (if \<not> aws_readOnly b
                         then snd (SetVolumeOwnership ops (awsebs_GetPath host b) fsGroup s3)
                         else s3)
               in (None, s4)))))"

definition awsebs_SetUp ::
  "'w node_ops \<Rightarrow> volume_host \<Rightarrow> awsElasticBlockStoreMounter \<Rightarrow> int option \<Rightarrow> 'w run
     \<Rightarrow> error option \<times> 'w run" where
  "awsebs_SetUp ops host b fsGroup s = awsebs_SetUpAt ops host b (awsebs_GetPath host b) fsGroup s"

section \<open>GCE PD mounter (pkg/volume/gcepd/gce\_pd.go)\<close>

definition gcePersistentDiskPluginName :: string where
  "gcePersistentDiskPluginName = ''kubernetes.io/gce-pd''"

record gcePersistentDiskMounter =
  gce_podUID :: string
  gce_volName :: string
  gce_pdName :: string
  gce_partition :: string
  gce_readOnly :: bool
  gce_mountOptions :: "string list"

definition gcepd_getPath :: "string \<Rightarrow> string \<Rightarrow> volume_host \<Rightarrow> string" where
  "gcepd_getPath uid volName host =
     GetPodVolumeDir host uid (EscapeQualifiedNameForDisk host gcePersistentDiskPluginName) volName"

definition gcepd_GetPath :: "volume_host \<Rightarrow> gcePersistentDiskMounter \<Rightarrow> string" where
  "gcepd_GetPath host b = gcepd_getPath (gce_podUID b) (gce_volName b) host"

definition makeGlobalPDName :: "volume_host \<Rightarrow> string \<Rightarrow> string" where
  "makeGlobalPDName host devName =
     path_Join host [GetPluginDir host gcePersistentDiskPluginName, MountsInGlobalPDPath host, devName]"

definition gcepd_SetUpAt ::
  "'w node_ops \<Rightarrow> volume_host \<Rightarrow> gcePersistentDiskMounter \<Rightarrow> string \<Rightarrow> int option \<Rightarrow> 'w run
     \<Rightarrow> error option \<times> 'w run" where
  "gcepd_SetUpAt ops host b dir fsGroup s0 =
     (case IsLikelyNotMountPoint ops dir s0 of ((notMnt, err), s1) \<Rightarrow>
      if err \<noteq> None \<and> \<not> os_IsNotExist err then (err, s1)
      else if \<not> notMnt then (None, s1)
      else
        (case MkdirAll ops dir s1 of (mkErr, s2) \<Rightarrow>
         if mkErr \<noteq> None then (mkErr, s2)
         else
           let options = [''bind''] @ (if gce_readOnly b then [''ro''] else []);
               globalPDPath = makeGlobalPDName host (gce_pdName b);
               mountOptions = JoinMountOptions (gce_mountOptions b) options in
           (case Mount ops globalPDPath dir [] mountOptions s2 of (err, s3) \<Rightarrow>
            if err \<noteq> None then
              (case IsLikelyNotMountPoint ops dir s3 of ((notMnt, mntErr), s4) \<Rightarrow>
               if mntErr \<noteq> None then (err, s4)
               else
                 (case (if \<not> notMnt then
                          (case Unmount ops dir s4 of (mntErr, s5) \<Rightarrow>
                           if mntErr \<noteq> None then (True, s5)
                           else
                             (case IsLikelyNotMountPoint ops dir s5 of ((notMnt, mntErr), s6) \<Rightarrow>
                              if mntErr \<noteq> None then (True, s6)
                              else if \<not> notMnt then (True, s6)
                              else (False, s6)))
                        else (False, s4)) of
                    (returned, s7) \<Rightarrow>
                      if returned then (err, s7)
                      else (case Remove ops dir s7 of (_, s8) \<Rightarrow> (err, s8))))
            else
              (let s4 = (if \<not> gce_readOnly b
                         then snd (SetVolumeOwnership ops (gcepd_GetPath host b) fsGroup s3)
                         else s3)
               in (None, s4)))))"

definition gcepd_SetUp ::
  "'w node_ops \<Rightarrow> volume_host \<Rightarrow> gcePersistentDiskMounter \<Rightarrow> int option \<Rightarrow> 'w run
     \<Rightarrow> error option \<times> 'w run" where
  "gcepd_SetUp ops host b fsGroup s = gcepd_SetUpAt ops host b (gcepd_GetPath host b) fsGroup s"

section \<open>Unmounting (package util)\<close>

text \<open>\<^verbatim>\<open>fmt.Errorf\<close> with one \<^verbatim>\<open>%v\<close> that prints an error; the result is never nil.\<close>

definition fmt_Errorf :: "string \<Rightarrow> error option \<Rightarrow> error option" where
  "fmt_Errorf format err =
     Some (case err of None \<Rightarrow> ErrorString (format @ '' <nil>'') | Some e \<Rightarrow> Errorf format e)"

definition PathExists :: "'w node_ops \<Rightarrow> string \<Rightarrow> 'w run \<Rightarrow> (bool \<times> error option) \<times> 'w run" where
  "PathExists ops path s =
     (case Stat ops path s of (err, s1) \<Rightarrow>
        if err = None then ((True, None), s1)
        else if os_IsNotExist err then ((False, None), s1)
        else if IsCorruptedMnt err then ((True, err), s1)
        else ((False, err), s1))"

definition doUnmountMountPoint ::
  "'w node_ops \<Rightarrow> string \<Rightarrow> bool \<Rightarrow> bool \<Rightarrow> 'w run \<Rightarrow> error option \<times> 'w run" where
  "doUnmountMountPoint ops mountPath extensiveMountPointCheck corruptedMnt s0 =
     (case (if \<not> corruptedMnt then
              (case (if extensiveMountPointCheck then IsNotMountPoint ops mountPath s0
                     else IsLikelyNotMountPoint ops mountPath s0) of
                 ((notMnt, err), s1) \<Rightarrow>
                   if err \<noteq> None then (Some err, s1)
                   else if notMnt then
                     (case Remove ops mountPath s1 of (rmErr, s2) \<Rightarrow> (Some rmErr, s2))
                   else (None, s1))
            else (None, s0)) of
        (Some ret, s2) \<Rightarrow> (ret, s2)
      | (None, s2) \<Rightarrow>
          (case Unmount ops mountPath s2 of (err, s3) \<Rightarrow>
             if err \<noteq> None then (err, s3)
             else
               (case IsLikelyNotMountPoint ops mountPath s3 of ((notMnt, mntErr), s4) \<Rightarrow>
                  if mntErr \<noteq> None then (mntErr, s4)
                  else if notMnt then Remove ops mountPath s4
                  else (Some (ErrorString (''failed to unmount path '' @ mountPath)), s4))))"

definition UnmountMountPoint ::
  "'w node_ops \<Rightarrow> string \<Rightarrow> bool \<Rightarrow> 'w run \<Rightarrow> error option \<times> 'w run" where
  "UnmountMountPoint ops mountPath extensiveMountPointCheck s0 =
     (case PathExists ops mountPath s0 of ((pathExists, pathErr), s1) \<Rightarrow>
        if \<not> pathExists then (None, s1)
        else
          (let corruptedMnt = IsCorruptedMnt pathErr in
           if pathErr \<noteq> None \<and> \<not> corruptedMnt
           then (fmt_Errorf ''error checking path: %v'' pathErr, s1)
           else doUnmountMountPoint ops mountPath extensiveMountPointCheck corruptedMnt s1))"

definition UnmountPath :: "'w node_ops \<Rightarrow> string \<Rightarrow> 'w run \<Rightarrow> error option \<times> 'w run" where
  "UnmountPath ops mountPath s = UnmountMountPoint ops mountPath False s"

text \<open>\<^verbatim>\<open>TearDownAt\<close> of the AWS EBS and GCE PD unmounters.\<close>

definition awsebs_TearDownAt :: "'w node_ops \<Rightarrow> string \<Rightarrow> 'w run \<Rightarrow> error option \<times> 'w run" where
  "awsebs_TearDownAt ops dir s = UnmountPath ops dir s"

definition gcepd_TearDownAt :: "'w node_ops \<Rightarrow> string \<Rightarrow> 'w run \<Rightarrow> error option \<times> 'w run" where
  "gcepd_TearDownAt ops dir s = UnmountPath ops dir s"

section \<open>CNI network plugin (pkg/kubelet/dockershim/network/cni/cni.go)\<close>

text \<open>A function that panics does not return: the panic is the outcome of the call.\<close>

datatype 'a outcome = Returns 'a | Panics string

record cni_NetConf =
  net_Type :: string
  net_Capabilities :: "string \<rightharpoonup> bool"

record cni_NetworkConfig =
  Network :: cni_NetConf

record cni_NetworkConfigList =
  conf_Name :: string
  conf_Plugins :: "cni_NetworkConfig list"

record cniNetwork =
  cniNetwork_name :: string
  NetworkConfig :: cni_NetworkConfigList

record cniNetworkPlugin =
  loNetwork :: "cniNetwork option"
  defaultNetwork :: "cniNetwork option"
  confDir :: string
  binDirs :: "string list"
  podCidr :: string

record cniPortMapping =
  cni_HostPort :: int
  cni_ContainerPort :: int
  cni_Protocol :: string
  cni_HostIP :: string

record cniBandwidthEntry =
  IngressRate :: int
  IngressBurst :: int
  EgressRate :: int
  EgressBurst :: int

record cniIpRange =
  Subnet :: string

record hostport_PortMapping =
  pm_Name :: string
  pm_HostPort :: int
  pm_ContainerPort :: int
  pm_Protocol :: string
  pm_HostIP :: string

text \<open>
  \<^verbatim>\<open>libcni.RuntimeConf\<close>; the three keys the plugin puts into \<^verbatim>\<open>CapabilityArgs\<close> are
  fields, the bandwidth entry present only when the source sets it.
\<close>

record cni_RuntimeConf =
  rt_ContainerID :: string
  rt_NetNS :: string
  rt_IfName :: string
  rt_Args :: "(string \<times> string) list"
  rt_portMappings :: "cniPortMapping list"
  rt_bandwidth :: "cniBandwidthEntry option"
  rt_ipRanges :: "cniIpRange list list"

text \<open>
  The network host, the bandwidth annotations parser, the interface name constant and
  the CNI library are outside the files under study: one function each, on a state
  \<open>'w\<close>. The result of a CNI ADD is kept as a string.
\<close>

record 'w cni_ops =
  host_GetNetNS :: "'w \<Rightarrow> string \<Rightarrow> string \<times> error option"
  host_GetPodPortMappings :: "'w \<Rightarrow> string \<Rightarrow> hostport_PortMapping list \<times> error option"
  bandwidth_ExtractPodBandwidthResources ::
    "(string \<rightharpoonup> string) \<Rightarrow> int option \<times> int option \<times> error option"
  network_DefaultInterfaceName :: string
  cni_AddNetworkList ::
    "'w \<Rightarrow> cni_NetworkConfigList \<Rightarrow> cni_RuntimeConf \<Rightarrow> (string option \<times> error option) \<times> 'w"
  cni_DelNetworkList ::
    "'w \<Rightarrow> cni_NetworkConfigList \<Rightarrow> cni_RuntimeConf \<Rightarrow> error option \<times> 'w"

datatype cni_call =
    GetNetNS_call string string "error option"
  | GetPodPortMappings_call string "error option"
  | AddNetworkList_call string string "error option"
  | DelNetworkList_call string string "error option"

type_synonym 'w cni_run = "'w \<times> cni_call list"

definition GetNetNS :: "'w cni_ops \<Rightarrow> string \<Rightarrow> 'w cni_run \<Rightarrow> (string \<times> error option) \<times> 'w cni_run" where
  "GetNetNS ops containerID s =
     (case s of (w, tr) \<Rightarrow>
        (case host_GetNetNS ops w containerID of (netnsPath, err) \<Rightarrow>
           ((netnsPath, err), (w, tr @ [GetNetNS_call containerID netnsPath err]))))"

definition GetPodPortMappings ::
  "'w cni_ops \<Rightarrow> string \<Rightarrow> 'w cni_run \<Rightarrow> (hostport_PortMapping list \<times> error option) \<times> 'w cni_run" where
  "GetPodPortMappings ops containerID s =
     (case s of (w, tr) \<Rightarrow>
        (case host_GetPodPortMappings ops w containerID of (portMappings, err) \<Rightarrow>
           ((portMappings, err), (w, tr @ [GetPodPortMappings_call containerID err]))))"

definition AddNetworkList ::
  "'w cni_ops \<Rightarrow> cni_NetworkConfigList \<Rightarrow> cni_RuntimeConf \<Rightarrow> 'w cni_run
     \<Rightarrow> (string option \<times> error option) \<times> 'w cni_run" where
  "AddNetworkList ops netConf rt s =
     (case s of (w, tr) \<Rightarrow>
        (case cni_AddNetworkList ops w netConf rt of ((res, err), w') \<Rightarrow>
           ((res, err), (w', tr @ [AddNetworkList_call (conf_Name netConf) (rt_ContainerID rt) err]))))"

definition DelNetworkList ::
  "'w cni_ops \<Rightarrow> cni_NetworkConfigList \<Rightarrow> cni_RuntimeConf \<Rightarrow> 'w cni_run \<Rightarrow> error option \<times> 'w cni_run" where
  "DelNetworkList ops netConf rt s =
     (case s of (w, tr) \<Rightarrow>
        (case cni_DelNetworkList ops w netConf rt of (err, w') \<Rightarrow>
           (err, (w', tr @ [DelNetworkList_call (conf_Name netConf) (rt_ContainerID rt) err]))))"

text \<open>Reading a \<^verbatim>\<open>map[string]bool\<close>: a missing key reads as false.\<close>

definition Capability :: "cni_NetworkConfig \<Rightarrow> string \<Rightarrow> bool" where
  "Capability p key = (case net_Capabilities (Network p) key of None \<Rightarrow> False | Some b \<Rightarrow> b)"

text \<open>
  The loop of \<^verbatim>\<open>checkInitialized\<close>: the first plugin with the \<^verbatim>\<open>ipRanges\<close>
  capability decides, and ends the loop.
\<close>

fun checkPodCIDR :: "cni_NetworkConfig list \<Rightarrow> string \<Rightarrow> error option" where
  "checkPodCIDR [] cidr = None"
| "checkPodCIDR (p # ps) cidr =
     (if Capability p ''ipRanges''
      then (if cidr = [] then Some (ErrorString ''no PodCIDR set'') else None)
      else checkPodCIDR ps cidr)"

definition checkInitialized :: "cniNetworkPlugin \<Rightarrow> error option" where
  "checkInitialized plugin =
     (case defaultNetwork plugin of
        None \<Rightarrow> Some (ErrorString ''cni config uninitialized'')
      | Some n \<Rightarrow> checkPodCIDR (conf_Plugins (NetworkConfig n)) (podCidr plugin))"

text \<open>\<^verbatim>\<open>strings.ToLower\<close> on the ASCII letters.\<close>

definition strings_ToLower :: "string \<Rightarrow> string" where
  "strings_ToLower s =
     map (\<lambda>c. let n = (of_char c :: nat) in if 65 \<le> n \<and> n \<le> 90 then char_of (n + 32) else c) s"

text \<open>Go's integer division truncates towards zero.\<close>

definition go_div :: "int \<Rightarrow> int \<Rightarrow> int" where
  "go_div a b = sgn a * sgn b * (\<bar>a\<bar> div \<bar>b\<bar>)"

definition buildCNIRuntimeConf ::
  "'w cni_ops \<Rightarrow> cniNetworkPlugin \<Rightarrow> string \<Rightarrow> string \<Rightarrow> string \<Rightarrow> string \<Rightarrow> (string \<rightharpoonup> string)
     \<Rightarrow> 'w cni_run \<Rightarrow> (cni_RuntimeConf option \<times> error option) \<times> 'w cni_run" where
  "buildCNIRuntimeConf ops plugin podName podNs podSandboxID podNetnsPath annotations s0 =
     (let rt = \<lparr> rt_ContainerID = podSandboxID, rt_NetNS = podNetnsPath,
                 rt_IfName = network_DefaultInterfaceName ops,
                 rt_Args = [(''IgnoreUnknown'', ''1''), (''K8S_POD_NAMESPACE'', podNs),
                            (''K8S_POD_NAME'', podName),
                            (''K8S_POD_INFRA_CONTAINER_ID'', podSandboxID)],
                 rt_portMappings = [], rt_bandwidth = None, rt_ipRanges = [] \<rparr> in
      case GetPodPortMappings ops podSandboxID s0 of ((portMappings, err), s1) \<Rightarrow>
        if err \<noteq> None
        then ((None, fmt_Errorf ''could not retrieve port mappings: %v'' err), s1)
        else
          (let portMappingsParam =
                 map (\<lambda>p. \<lparr> cni_HostPort = pm_HostPort p, cni_ContainerPort = pm_ContainerPort p,
                             cni_Protocol = strings_ToLower (pm_Protocol p),
                             cni_HostIP = pm_HostIP p \<rparr>)
                     (filter (\<lambda>p. \<not> pm_HostPort p \<le> 0) portMappings);
               rt = rt\<lparr>rt_portMappings := portMappingsParam\<rparr> in
           case bandwidth_ExtractPodBandwidthResources ops annotations of (ingress, egress, err) \<Rightarrow>
             if err \<noteq> None
             then ((None, fmt_Errorf ''error reading pod bandwidth annotations: %v'' err), s1)
             else
               (let rt = (if ingress \<noteq> None \<or> egress \<noteq> None then
                            (let bandwidthParam =
                                   \<lparr> IngressRate = 0, IngressBurst = 0, EgressRate = 0, EgressBurst = 0 \<rparr>;
                                 bandwidthParam =
                                   (case ingress of None \<Rightarrow> bandwidthParam
                                    | Some v \<Rightarrow> bandwidthParam\<lparr>IngressRate := go_div v 1000, IngressBurst := 0\<rparr>);
                                 bandwidthParam =
                                   (case egress of None \<Rightarrow> bandwidthParam
                                    | Some v \<Rightarrow> bandwidthParam\<lparr>EgressRate := go_div v 1000, EgressBurst := 0\<rparr>)
                             in rt\<lparr>rt_bandwidth := Some bandwidthParam\<rparr>)
                          else rt);
                    rt = rt\<lparr>rt_ipRanges := [[\<lparr> Subnet = podCidr plugin \<rparr>]]\<rparr>
                in ((Some rt, None), s1))))"

text \<open>
  \<^verbatim>\<open>addToNetwork\<close>. The log statements index \<^verbatim>\<open>netConf.Plugins[0]\<close>, which panics on
  a configuration list without plugins.
\<close>

definition addToNetwork ::
  "'w cni_ops \<Rightarrow> cniNetworkPlugin \<Rightarrow> cniNetwork \<Rightarrow> string \<Rightarrow> string \<Rightarrow> string \<Rightarrow> string
     \<Rightarrow> (string \<rightharpoonup> string) \<Rightarrow> 'w cni_run \<Rightarrow> (string option \<times> error option) outcome \<times> 'w cni_run" where
  "addToNetwork ops plugin network podName podNamespace podSandboxID podNetnsPath annotations s0 =
     (case buildCNIRuntimeConf ops plugin podName podNamespace podSandboxID podNetnsPath annotations s0 of
        ((rt, err), s1) \<Rightarrow>
          (case rt of
             None \<Rightarrow> (Returns (None, err), s1)
           | Some rt \<Rightarrow>
               (let netConf = NetworkConfig network in
                if conf_Plugins netConf = [] then (Panics ''index out of range'', s1)
                else
                  (case AddNetworkList ops netConf rt s1 of ((res, err), s2) \<Rightarrow>
                     if err \<noteq> None then (Returns (None, err), s2)
                     else (Returns (res, None), s2)))))"

text \<open>
  \<^verbatim>\<open>SetUpPod\<close>. Passing a nil default network to \<^verbatim>\<open>addToNetwork\<close> would dereference
  nil; \<^verbatim>\<open>checkInitialized\<close> has returned an error in that case.
\<close>

definition SetUpPod ::
  "'w cni_ops \<Rightarrow> cniNetworkPlugin \<Rightarrow> string \<Rightarrow> string \<Rightarrow> string \<Rightarrow> (string \<rightharpoonup> string)
     \<Rightarrow> 'w cni_run \<Rightarrow> error option outcome \<times> 'w cni_run" where
  "SetUpPod ops plugin namespace name containerID annotations s0 =
     (case checkInitialized plugin of
        Some err \<Rightarrow> (Returns (Some err), s0)
      | None \<Rightarrow>
          (case GetNetNS ops containerID s0 of ((netnsPath, err), s1) \<Rightarrow>
             if err \<noteq> None
             then (Returns (fmt_Errorf ''CNI failed to retrieve network namespace path: %v'' err), s1)
             else
               (case (case loNetwork plugin of
                        None \<Rightarrow> (None, s1)
                      | Some lo \<Rightarrow>
                          (case addToNetwork ops plugin lo name namespace containerID netnsPath annotations s1 of
                             (Panics m, s2) \<Rightarrow> (Some (Panics m), s2)
                           | (Returns (_, err), s2) \<Rightarrow>
                               if err \<noteq> None then (Some (Returns err), s2) else (None, s2))) of
                  (Some ret, s2) \<Rightarrow> (ret, s2)
                | (None, s2) \<Rightarrow>
                    (case defaultNetwork plugin of
                       None \<Rightarrow> (Panics ''nil pointer dereference'', s2)
                     | Some n \<Rightarrow>
                         (case addToNetwork ops plugin n name namespace containerID netnsPath annotations s2 of
                            (Panics m, s3) \<Rightarrow> (Panics m, s3)
                          | (Returns (_, err), s3) \<Rightarrow> (Returns err, s3))))))"

text \<open>The configuration declares the \<^verbatim>\<open>ipRanges\<close> capability: one of its plugins does.\<close>

definition declares_ipRanges :: "cni_NetworkConfigList \<Rightarrow> bool" where
  "declares_ipRanges netConf = list_ex (\<lambda>p. Capability p ''ipRanges'') (conf_Plugins netConf)"

section \<open>Azure disk attacher (pkg/volume/azure\_dd/attacher.go)\<close>

text \<open>\<^verbatim>\<open>strconv.Itoa\<close>, for printing a LUN into an error message.\<close>

fun nat_digits :: "nat \<Rightarrow> string" where
  "nat_digits n =
     (if n < 10 then [char_of (48 + n)] else nat_digits (n div 10) @ [char_of (48 + n mod 10)])"

declare nat_digits.simps [simp del]

definition strconv_Itoa :: "int \<Rightarrow> string" where
  "strconv_Itoa i = (if i < 0 then CHR ''-'' # nat_digits (nat (- i)) else nat_digits (nat i))"

text \<open>A \<^verbatim>\<open>time.Duration\<close> is a number of nanoseconds.\<close>

definition time_Second :: int where
  "time_Second = 1000000000"

definition ErrWaitTimeout :: error where
  "ErrWaitTimeout = ErrorString ''timed out waiting for the condition''"

text \<open>
  Modelled from the spec: \<^verbatim>\<open>wait.Poll\<close> (package \<^verbatim>\<open>apimachinery/pkg/util/wait\<close>) is not
  among the files under study; the spec describes its use as bounded polling with a
  fixed timeout. The model follows the documented contract of \<^verbatim>\<open>Poll\<close>: it waits one
  interval before each run of the condition, runs the condition at least once, and stops
  when the condition returns true (nil), when the condition returns an error (that
  error), or when the timeout has elapsed (\<^verbatim>\<open>ErrWaitTimeout\<close>). \<open>wait_Poll_loop n\<close> has
  \<open>n\<close> whole intervals left before the timeout; \<open>tick\<close> is the passing of one interval.
\<close>

fun wait_Poll_loop ::
  "nat \<Rightarrow> ('s \<Rightarrow> 's) \<Rightarrow> ('s \<Rightarrow> (bool \<times> error option) \<times> 's) \<Rightarrow> 's \<Rightarrow> error option \<times> 's" where
  "wait_Poll_loop 0 tick condition s =
     (case condition (tick s) of ((ok, err), s') \<Rightarrow>
        if err \<noteq> None then (err, s')
        else if ok then (None, s')
        else (Some ErrWaitTimeout, s'))"
| "wait_Poll_loop (Suc n) tick condition s =
     (case condition (tick s) of ((ok, err), s') \<Rightarrow>
        if err \<noteq> None then (err, s')
        else if ok then (None, s')
        else wait_Poll_loop n tick condition s')"

definition wait_Poll ::
  "int \<Rightarrow> int \<Rightarrow> ('s \<Rightarrow> 's) \<Rightarrow> ('s \<Rightarrow> (bool \<times> error option) \<times> 's) \<Rightarrow> 's \<Rightarrow> error option \<times> 's" where
  "wait_Poll interval timeout tick condition s =
     (let n = (if interval \<le> 0 then 0 else nat (timeout div interval))
      in wait_Poll_loop (if n = 0 then 0 else n - 1) tick condition s)"

record AzureDiskVolumeSource =
  DiskName :: string
  DataDiskURI :: string

record volume_Spec =
  spec_Name :: string
  spec_AzureDisk :: "AzureDiskVolumeSource option"

text \<open>
  The helpers of the package that are in other files (\<^verbatim>\<open>getVolumeSource\<close>,
  \<^verbatim>\<open>getDiskController\<close>, \<^verbatim>\<open>getDiskLUN\<close>, \<^verbatim>\<open>scsiHostRescan\<close>, \<^verbatim>\<open>findDiskByLun\<close>), the
  disk controller, the host name and \<^verbatim>\<open>runtime.GOOS\<close> are taken as given, on a node state
  \<open>'w\<close>. \<open>az_interval\<close> is what one polling interval of waiting does to the node.
\<close>

record 'w azure_ops =
  az_getVolumeSource :: "volume_Spec \<Rightarrow> AzureDiskVolumeSource \<times> error option"
  az_getDiskController :: "error option"
  az_GetHostName :: string
  az_GOOS :: string
  az_GetDiskLun :: "'w \<Rightarrow> string \<Rightarrow> string \<Rightarrow> string \<Rightarrow> int \<times> error option"
  az_getDiskLUN :: "string \<Rightarrow> int \<times> error option"
  az_scsiHostRescan :: "'w \<Rightarrow> 'w"
  az_findDiskByLun :: "'w \<Rightarrow> int \<Rightarrow> string \<times> error option"
  az_interval :: "'w \<Rightarrow> 'w"

datatype az_call =
    GetDiskLun_call string string string int "error option"
  | scsiHostRescan_call
  | interval_call
  | findDiskByLun_call int string "error option"

type_synonym 'w az_run = "'w \<times> az_call list"

definition GetDiskLun ::
  "'w azure_ops \<Rightarrow> string \<Rightarrow> string \<Rightarrow> string \<Rightarrow> 'w az_run \<Rightarrow> (int \<times> error option) \<times> 'w az_run" where
  "GetDiskLun ops diskName diskURI nodeName s =
     (case s of (w, tr) \<Rightarrow>
        (case az_GetDiskLun ops w diskName diskURI nodeName of (lun, err) \<Rightarrow>
           ((lun, err), (w, tr @ [GetDiskLun_call diskName diskURI nodeName lun err]))))"

definition scsiHostRescan :: "'w azure_ops \<Rightarrow> 'w az_run \<Rightarrow> 'w az_run" where
  "scsiHostRescan ops s = (case s of (w, tr) \<Rightarrow> (az_scsiHostRescan ops w, tr @ [scsiHostRescan_call]))"

definition interval_passes :: "'w azure_ops \<Rightarrow> 'w az_run \<Rightarrow> 'w az_run" where
  "interval_passes ops s = (case s of (w, tr) \<Rightarrow> (az_interval ops w, tr @ [interval_call]))"

definition findDiskByLun ::
  "'w azure_ops \<Rightarrow> int \<Rightarrow> 'w az_run \<Rightarrow> (string \<times> error option) \<times> 'w az_run" where
  "findDiskByLun ops lun s =
     (case s of (w, tr) \<Rightarrow>
        (case az_findDiskByLun ops w lun of (path, err) \<Rightarrow>
           ((path, err), (w, tr @ [findDiskByLun_call lun path err]))))"

fun is_findDiskByLun_call :: "az_call \<Rightarrow> bool" where
  "is_findDiskByLun_call (findDiskByLun_call _ _ _) = True"
| "is_findDiskByLun_call _ = False"

text \<open>
  The condition function of \<^verbatim>\<open>WaitForAttach\<close>. It is a closure over \<^verbatim>\<open>newDevicePath\<close>,
  which it assigns; the variable travels with the state.
\<close>

definition WaitForAttach_condition ::
  "'w azure_ops \<Rightarrow> string \<Rightarrow> string \<Rightarrow> int \<Rightarrow> string \<times> 'w az_run
     \<Rightarrow> (bool \<times> error option) \<times> (string \<times> 'w az_run)" where
  "WaitForAttach_condition ops nodeName diskName lun st =
     (case st of (newDevicePath, s) \<Rightarrow>
        (case findDiskByLun ops lun s of ((newDevicePath, err), s') \<Rightarrow>
           if err \<noteq> None
           then ((False, fmt_Errorf (''azureDisk - WaitForAttach ticker failed node ('' @ nodeName
                    @ '') disk ('' @ diskName @ '') lun('' @ strconv_Itoa lun @ '') err(%s)'') err),
                 (newDevicePath, s'))
           else if newDevicePath \<noteq> [] then ((True, None), (newDevicePath, s'))
           else ((False, Some (ErrorString (''azureDisk - WaitForAttach failed within timeout node (''
                    @ nodeName @ '') diskId:('' @ diskName @ '') lun:('' @ strconv_Itoa lun @ '')''))),
                 (newDevicePath, s'))))"

definition WaitForAttach ::
  "'w azure_ops \<Rightarrow> volume_Spec \<Rightarrow> string \<Rightarrow> int \<Rightarrow> 'w az_run
     \<Rightarrow> (string \<times> error option) \<times> 'w az_run" where
  "WaitForAttach ops spec devicePath timeout s0 =
     (case az_getVolumeSource ops spec of (volumeSource, err) \<Rightarrow>
        if err \<noteq> None then (([], err), s0)
        else if az_getDiskController ops \<noteq> None then (([], az_getDiskController ops), s0)
        else
          (let nodeName = az_GetHostName ops;
               diskName = DiskName volumeSource in
           case (if az_GOOS ops = ''windows''
                 then GetDiskLun ops diskName (DataDiskURI volumeSource) nodeName s0
                 else (az_getDiskLUN ops devicePath, s0)) of
             ((lun, err), s1) \<Rightarrow>
               if err \<noteq> None then (([], err), s1)
               else
                 (let s2 = scsiHostRescan ops s1;
                      newDevicePath = [] in
                  case wait_Poll (1 * time_Second) timeout
                         (\<lambda>(p, s). (p, interval_passes ops s))
                         (WaitForAttach_condition ops nodeName diskName lun)
                         (newDevicePath, s2) of
                    (err, (newDevicePath, s3)) \<Rightarrow> ((newDevicePath, err), s3))))"

section \<open>Service cache of the service controller\<close>

record v1_Service =
  svc_Name :: string
  svc_UID :: string
  svc_Type :: string

record cachedService =
  cs_state :: "v1_Service option"

text \<open>
  Modelled from the spec: the type \<^verbatim>\<open>serviceCache\<close> and its methods are in the service
  controller, which is not among the files under study; only \<^verbatim>\<open>TestServiceCache\<close> is.
  The spec: "service cache add/delete/set/get/list operations are consistent". The test
  builds the cache from \<^verbatim>\<open>serviceMap\<close>, a map from keys to cached services: a finite
  map with one entry per key.
\<close>

type_synonym serviceCache = "(string, cachedService) alist"

text \<open>Modelled from the spec: the cache the test starts from, an empty \<^verbatim>\<open>serviceMap\<close>.\<close>

definition newServiceCache :: serviceCache where
  "newServiceCache = DAList.empty"

text \<open>Modelled from the spec: \<^verbatim>\<open>get\<close> returns the entry of the key and whether there is one.\<close>

definition sc_get :: "serviceCache \<Rightarrow> string \<Rightarrow> cachedService option \<times> bool" where
  "sc_get sc serviceName =
     (case DAList.lookup sc serviceName of None \<Rightarrow> (None, False) | Some v \<Rightarrow> (Some v, True))"

text \<open>
  Modelled from the spec: \<^verbatim>\<open>getOrCreate\<close> returns the entry of the key, after storing a
  fresh cached service (no state yet) when the key had none.
\<close>

definition sc_getOrCreate :: "serviceCache \<Rightarrow> string \<Rightarrow> cachedService \<times> serviceCache" where
  "sc_getOrCreate sc serviceName =
     (case DAList.lookup sc serviceName of
        Some v \<Rightarrow> (v, sc)
      | None \<Rightarrow> (\<lparr>cs_state = None\<rparr>, DAList.update serviceName \<lparr>cs_state = None\<rparr> sc))"

text \<open>Modelled from the spec: \<^verbatim>\<open>set\<close> stores the entry under the key.\<close>

definition sc_set :: "serviceCache \<Rightarrow> string \<Rightarrow> cachedService \<Rightarrow> serviceCache" where
  "sc_set sc serviceName service = DAList.update serviceName service sc"

text \<open>Modelled from the spec: \<^verbatim>\<open>delete\<close> removes the entry of the key.\<close>

definition sc_delete :: "serviceCache \<Rightarrow> string \<Rightarrow> serviceCache" where
  "sc_delete sc serviceName = DAList.delete serviceName sc"

text \<open>Modelled from the spec: \<^verbatim>\<open>ListKeys\<close> returns the keys of the stored entries.\<close>

definition sc_ListKeys :: "serviceCache \<Rightarrow> string list" where
  "sc_ListKeys sc = map fst (DAList.impl_of sc)"

text \<open>Modelled from the spec: \<^verbatim>\<open>GetByKey\<close> returns the state of the entry, whether there is one, and a nil error.\<close>

definition sc_GetByKey :: "serviceCache \<Rightarrow> string \<Rightarrow> v1_Service option \<times> bool \<times> error option" where
  "sc_GetByKey sc key =
     (case DAList.lookup sc key of None \<Rightarrow> (None, False, None) | Some v \<Rightarrow> (cs_state v, True, None))"

text \<open>Modelled from the spec: \<^verbatim>\<open>allServices\<close> returns the state of every stored entry.\<close>

definition sc_allServices :: "serviceCache \<Rightarrow> v1_Service option list" where
  "sc_allServices sc = map (\<lambda>kv. cs_state (snd kv)) (DAList.impl_of sc)"

section \<open>kubectl cordon, uncordon and drain\<close>

record v1_NodeSpec =
  PodCIDR :: string
  ProviderID :: string
  Unschedulable :: bool
  Taints :: "string list"

record v1_Node =
  node_Name :: string
  node_Spec :: v1_NodeSpec

text \<open>The nodes the API server of the test knows, by name.\<close>

type_synonym api_nodes = "string \<rightharpoonup> v1_Node"

text \<open>
  Modelled from the spec: the commands are in drain.go, which is not among the files under
  study; only drain\_test.go is. The spec: "cordon/uncordon patches the node's
  \<^verbatim>\<open>Spec.Unschedulable\<close> field". As \<^verbatim>\<open>TestCordon\<close> expects, a node the server does not
  know is a fatal error without an update, and a node already in the wanted state is not
  patched. The boolean of the result says whether a patch was sent.
\<close>

definition RunCordonOrUncordon :: "bool \<Rightarrow> api_nodes \<Rightarrow> string \<Rightarrow> error + (api_nodes \<times> bool)" where
  "RunCordonOrUncordon desired nodes nodeName =
     (case nodes nodeName of
        None \<Rightarrow> Inl (ErrorString (''nodes '' @ nodeName @ '' not found''))
      | Some node \<Rightarrow>
          if Unschedulable (node_Spec node) = desired then Inr (nodes, False)
          else Inr (nodes(nodeName \<mapsto> node\<lparr>node_Spec := (node_Spec node)\<lparr>Unschedulable := desired\<rparr>\<rparr>),
                    True))"

text \<open>Modelled from the spec: \<^verbatim>\<open>kubectl cordon\<close> wants the node unschedulable.\<close>

definition cordon :: "api_nodes \<Rightarrow> string \<Rightarrow> error + (api_nodes \<times> bool)" where
  "cordon nodes nodeName = RunCordonOrUncordon True nodes nodeName"

text \<open>Modelled from the spec: \<^verbatim>\<open>kubectl uncordon\<close> wants the node schedulable.\<close>

definition uncordon :: "api_nodes \<Rightarrow> string \<Rightarrow> error + (api_nodes \<times> bool)" where
  "uncordon nodes nodeName = RunCordonOrUncordon False nodes nodeName"

datatype owner_kind = ReplicationController | DaemonSet | Job | ReplicaSet | StatefulSet

datatype pod_phase = PhaseUnset | PodPending | PodRunning | PodSucceeded | PodFailed | PodUnknown

text \<open>
  A pod, as far as the table of \<^verbatim>\<open>TestDrain\<close> tells pods apart: the kind of its
  controller owner reference (none for a naked pod), whether it has an \<^verbatim>\<open>emptyDir\<close>
  volume, whether it is a mirror pod, and its phase.
\<close>

record v1_Pod =
  pod_Name :: string
  pod_Namespace :: string
  pod_controller :: "owner_kind option"
  pod_emptyDir :: bool
  pod_mirror :: bool
  pod_phase :: pod_phase

record DrainOptions =
  Force :: bool
  IgnoreDaemonsets :: bool
  DeleteLocalData :: bool

text \<open>A pod filter says whether the pod is to be deleted, and may add a warning or a fatal error.\<close>

type_synonym filter_result = "bool \<times> string option \<times> string option"

definition finished :: "v1_Pod \<Rightarrow> bool" where
  "finished pod = (pod_phase pod = PodSucceeded \<or> pod_phase pod = PodFailed)"

text \<open>
  Modelled from the spec: the pod filters of drain.go are not among the files under
  study. The spec: drain "deletes/evicts pods owned by a ReplicationController but refuses
  for naked/DaemonSet pods unless forced". Which flag forces which kind of pod, and the
  treatment of finished pods and of local storage, are what the table of \<^verbatim>\<open>TestDrain\<close>
  expects. DaemonSet-managed pods are never deleted; without \<^verbatim>\<open>--ignore-daemonsets\<close>
  they are a fatal error, with it a warning.
\<close>

definition daemonsetFilter :: "DrainOptions \<Rightarrow> v1_Pod \<Rightarrow> filter_result" where
  "daemonsetFilter opts pod =
     (if pod_controller pod \<noteq> Some DaemonSet then (True, None, None)
      else if finished pod then (True, None, None)
      else if \<not> IgnoreDaemonsets opts
      then (False, None, Some ''DaemonSet-managed pods (use --ignore-daemonsets to ignore)'')
      else (False, Some ''Ignoring DaemonSet-managed pods'', None))"

text \<open>Modelled from the spec: mirror pods are skipped silently.\<close>

definition mirrorPodFilter :: "v1_Pod \<Rightarrow> filter_result" where
  "mirrorPodFilter pod = (if pod_mirror pod then (False, None, None) else (True, None, None))"

text \<open>
  Modelled from the spec: a pod with an \<^verbatim>\<open>emptyDir\<close> volume that has not finished is a
  fatal error without \<^verbatim>\<open>--delete-local-data\<close>, as \<^verbatim>\<open>TestDrain\<close> expects.
\<close>

definition localStorageFilter :: "DrainOptions \<Rightarrow> v1_Pod \<Rightarrow> filter_result" where
  "localStorageFilter opts pod =
     (if \<not> pod_emptyDir pod then (True, None, None)
      else if finished pod then (True, None, None)
      else if \<not> DeleteLocalData opts
      then (False, None, Some ''pods with local storage (use --delete-local-data to override)'')
      else (True, Some ''Deleting pods with local storage'', None))"

text \<open>
  Modelled from the spec: a pod without a controller (a naked pod) that has not finished
  is a fatal error without \<^verbatim>\<open>--force\<close>; with it the pod is deleted, with a warning.
\<close>

definition unreplicatedFilter :: "DrainOptions \<Rightarrow> v1_Pod \<Rightarrow> filter_result" where
  "unreplicatedFilter opts pod =
     (if finished pod then (True, None, None)
      else if pod_controller pod \<noteq> None then (True, None, None)
      else if Force opts
      then (True, Some ''Deleting pods not managed by ReplicationController, ReplicaSet, Job, DaemonSet or StatefulSet'', None)
      else (False, None, Some ''pods not managed by ReplicationController, ReplicaSet, Job, DaemonSet or StatefulSet (use --force to override)''))"

text \<open>
  Modelled from the spec: a pod goes through the filters in order, until one says it is
  not to be deleted; the warnings and fatal errors met on the way are kept.
\<close>

fun run_filters :: "(v1_Pod \<Rightarrow> filter_result) list \<Rightarrow> v1_Pod \<Rightarrow> bool \<times> string list \<times> string list" where
  "run_filters [] pod = (True, [], [])"
| "run_filters (filt # filts) pod =
     (case filt pod of (filterOk, w, f) \<Rightarrow>
        (let ws = (case w of None \<Rightarrow> [] | Some m \<Rightarrow> [m]);
             fs = (case f of None \<Rightarrow> [] | Some m \<Rightarrow> [m])
         in if \<not> filterOk then (False, ws, fs)
            else (case run_filters filts pod of (ok, ws', fs') \<Rightarrow> (ok, ws @ ws', fs @ fs'))))"

definition pod_filters :: "DrainOptions \<Rightarrow> (v1_Pod \<Rightarrow> filter_result) list" where
  "pod_filters opts =
     [daemonsetFilter opts, mirrorPodFilter, localStorageFilter opts, unreplicatedFilter opts]"

text \<open>
  Modelled from the spec: the pods to delete are those that pass every filter; any fatal
  error refuses the whole drain. The warnings are returned with the pods, each with the
  name of its pod.
\<close>

definition getPodsForDeletion ::
  "DrainOptions \<Rightarrow> v1_Pod list \<Rightarrow> error + (v1_Pod list \<times> string list)" where
  "getPodsForDeletion opts pods =
     (let fs = concat (map (\<lambda>pod. map (\<lambda>m. m @ '': '' @ pod_Name pod)
                                     (snd (snd (run_filters (pod_filters opts) pod)))) pods);
          ws = concat (map (\<lambda>pod. map (\<lambda>m. ''WARNING: '' @ m @ '': '' @ pod_Name pod)
                                     (fst (snd (run_filters (pod_filters opts) pod)))) pods)
      in if fs \<noteq> [] then Inl (ErrorString (concat fs))
         else Inr (filter (\<lambda>pod. fst (run_filters (pod_filters opts) pod)) pods, ws))"

record drain_result =
  drained_nodes :: api_nodes
  deleted_pods :: "v1_Pod list"
  warnings :: "string list"

text \<open>
  Modelled from the spec: \<^verbatim>\<open>kubectl drain\<close> cordons the node, then deletes or evicts
  the pods of the node that pass the filters; a fatal error ends the command.
\<close>

definition RunDrain :: "DrainOptions \<Rightarrow> api_nodes \<Rightarrow> string \<Rightarrow> v1_Pod list \<Rightarrow> error + drain_result" where
  "RunDrain opts nodes nodeName pods =
     (case RunCordonOrUncordon True nodes nodeName of
        Inl err \<Rightarrow> Inl err
      | Inr (nodes', _) \<Rightarrow>
          (case getPodsForDeletion opts pods of
             Inl err \<Rightarrow> Inl err
           | Inr (toDelete, ws) \<Rightarrow>
               Inr \<lparr> drained_nodes = nodes', deleted_pods = toDelete, warnings = ws \<rparr>))"

subsection \<open>The fixtures and the table of TestDrain (drain\_test.go)\<close>

definition test_node :: v1_Node where
  "test_node = \<lparr> node_Name = ''node'',
     node_Spec = \<lparr> PodCIDR = [], ProviderID = [], Unschedulable = False, Taints = [] \<rparr> \<rparr>"

definition cordoned_node :: v1_Node where
  "cordoned_node = test_node\<lparr>node_Spec := (node_Spec test_node)\<lparr>Unschedulable := True\<rparr>\<rparr>"

definition naked_pod :: v1_Pod where
  "naked_pod = \<lparr> pod_Name = ''bar'', pod_Namespace = ''default'', pod_controller = None,
     pod_emptyDir = False, pod_mirror = False, pod_phase = PhaseUnset \<rparr>"

definition rc_pod :: v1_Pod where
  "rc_pod = naked_pod\<lparr>pod_controller := Some ReplicationController\<rparr>"

definition ds_pod :: v1_Pod where
  "ds_pod = naked_pod\<lparr>pod_controller := Some DaemonSet\<rparr>"

definition ds_terminated_pod :: v1_Pod where
  "ds_terminated_pod = ds_pod\<lparr>pod_phase := PodSucceeded\<rparr>"

definition ds_pod_with_emptyDir :: v1_Pod where
  "ds_pod_with_emptyDir = ds_pod\<lparr>pod_emptyDir := True\<rparr>"

definition orphaned_ds_pod :: v1_Pod where
  "orphaned_ds_pod = naked_pod"

definition job_pod :: v1_Pod where
  "job_pod = naked_pod\<lparr>pod_controller := Some Job, pod_emptyDir := True\<rparr>"

definition terminated_job_pod_with_local_storage :: v1_Pod where
  "terminated_job_pod_with_local_storage = job_pod\<lparr>pod_phase := PodSucceeded\<rparr>"

definition rs_pod :: v1_Pod where
  "rs_pod = naked_pod\<lparr>pod_controller := Some ReplicaSet\<rparr>"

definition emptydir_pod :: v1_Pod where
  "emptydir_pod = naked_pod\<lparr>pod_emptyDir := True\<rparr>"

definition emptydir_terminated_pod :: v1_Pod where
  "emptydir_terminated_pod = emptydir_pod\<lparr>pod_phase := PodFailed\<rparr>"

definition no_flags :: DrainOptions where
  "no_flags = \<lparr> Force = False, IgnoreDaemonsets = False, DeleteLocalData = False \<rparr>"

record drain_test =
  description :: string
  pods :: "v1_Pod list"
  args :: DrainOptions
  expectWarning :: string
  expectFatal :: bool
  expectDelete :: bool

definition drain_tests :: "drain_test list" where
  "drain_tests =
    [\<lparr>description = ''RC-managed pod'', pods = [rc_pod], args = no_flags,
      expectWarning = [], expectFatal = False, expectDelete = True\<rparr>,
     \<lparr>description = ''DS-managed pod'', pods = [ds_pod], args = no_flags,
      expectWarning = [], expectFatal = True, expectDelete = False\<rparr>,
     \<lparr>description = ''DS-managed terminated pod'', pods = [ds_terminated_pod], args = no_flags,
      expectWarning = [], expectFatal = False, expectDelete = True\<rparr>,
     \<lparr>description = ''orphaned DS-managed pod'', pods = [orphaned_ds_pod], args = no_flags,
      expectWarning = [], expectFatal = True, expectDelete = False\<rparr>,
     \<lparr>description = ''orphaned DS-managed pod with --force'', pods = [orphaned_ds_pod],
      args = no_flags\<lparr>Force := True\<rparr>,
      expectWarning = [], expectFatal = False, expectDelete = True\<rparr>,
     \<lparr>description = ''DS-managed pod with --ignore-daemonsets'', pods = [ds_pod],
      args = no_flags\<lparr>IgnoreDaemonsets := True\<rparr>,
      expectWarning = [], expectFatal = False, expectDelete = False\<rparr>,
     \<lparr>description = ''DS-managed pod with emptyDir with --ignore-daemonsets'',
      pods = [ds_pod_with_emptyDir], args = no_flags\<lparr>IgnoreDaemonsets := True\<rparr>,
      expectWarning = ''WARNING: Ignoring DaemonSet-managed pods: bar'',
      expectFatal = False, expectDelete = False\<rparr>,
     \<lparr>description = ''Job-managed pod with local storage'', pods = [job_pod],
      args = no_flags\<lparr>Force := True, DeleteLocalData := True\<rparr>,
      expectWarning = [], expectFatal = False, expectDelete = True\<rparr>,
     \<lparr>description = ''Job-managed terminated pod'',
      pods = [terminated_job_pod_with_local_storage], args = no_flags,
      expectWarning = [], expectFatal = False, expectDelete = True\<rparr>,
     \<lparr>description = ''RS-managed pod'', pods = [rs_pod], args = no_flags,
      expectWarning = [], expectFatal = False, expectDelete = True\<rparr>,
     \<lparr>description = ''naked pod'', pods = [naked_pod], args = no_flags,
      expectWarning = [], expectFatal = True, expectDelete = False\<rparr>,
     \<lparr>description = ''naked pod with --force'', pods = [naked_pod],
      args = no_flags\<lparr>Force := True\<rparr>,
      expectWarning = [], expectFatal = False, expectDelete = True\<rparr>,
     \<lparr>description = ''pod with EmptyDir'', pods = [emptydir_pod],
      args = no_flags\<lparr>Force := True\<rparr>,
      expectWarning = [], expectFatal = True, expectDelete = False\<rparr>,
     \<lparr>description = ''terminated pod with emptyDir'', pods = [emptydir_terminated_pod],
      args = no_flags,
      expectWarning = [], expectFatal = False, expectDelete = True\<rparr>,
     \<lparr>description = ''pod with EmptyDir and --delete-local-data'', pods = [emptydir_pod],
      args = no_flags\<lparr>Force := True, DeleteLocalData := True\<rparr>,
      expectWarning = [], expectFatal = False, expectDelete = True\<rparr>,
     \<lparr>description = ''empty node'', pods = [], args = no_flags,
      expectWarning = [], expectFatal = False, expectDelete = False\<rparr>]"

text \<open>
  What one row of the table asserts of a run of the command on the test node: a fatal
  error exactly when expected, a deletion exactly when expected, and the expected
  warning among the warnings.
\<close>

definition row_holds :: "drain_test \<Rightarrow> bool" where
  "row_holds t =
     (case RunDrain (args t) [''node'' \<mapsto> test_node] ''node'' (pods t) of
        Inl err \<Rightarrow> expectFatal t \<and> \<not> expectDelete t
      | Inr r \<Rightarrow>
          \<not> expectFatal t \<and> (deleted_pods r \<noteq> []) = expectDelete t \<and>
          drained_nodes r ''node'' = Some cordoned_node \<and>
          (expectWarning t = [] \<or> expectWarning t \<in> set (warnings r)))"

section \<open>A concrete node\<close>

text \<open>
  A small node in the manner of the repository's fake mounter: the directories that
  exist, the mount points, and the errors the next \<^verbatim>\<open>Mount\<close>, \<^verbatim>\<open>Unmount\<close> and
  \<^verbatim>\<open>os.Remove\<close> report. A \<^verbatim>\<open>Mount\<close> that reports an error may still leave the target
  mounted (\<open>fake_MountSticks\<close>).
\<close>

record fake_node =
  fake_dirs :: "string list"
  fake_mountPoints :: "string list"
  fake_StatErr :: "error option"
  fake_MountErr :: "error option"
  fake_MountSticks :: bool
  fake_UnmountErr :: "error option"
  fake_RemoveErr :: "error option"

definition fake_IsLikelyNotMountPoint :: "fake_node \<Rightarrow> string \<Rightarrow> bool \<times> error option" where
  "fake_IsLikelyNotMountPoint w dir =
     (if dir \<in> set (fake_dirs w) then (dir \<notin> set (fake_mountPoints w), None)
      else (True, Some (PathError ENOENT)))"

definition fake_ops :: "fake_node node_ops" where
  "fake_ops = \<lparr>
     mounter_IsLikelyNotMountPoint = fake_IsLikelyNotMountPoint,
     mounter_IsNotMountPoint = fake_IsLikelyNotMountPoint,
     mounter_Mount = (\<lambda>w source target fstype options.
        (fake_MountErr w,
         if fake_MountErr w = None \<or> fake_MountSticks w
         then w\<lparr>fake_mountPoints := target # fake_mountPoints w\<rparr> else w)),
     mounter_Unmount = (\<lambda>w target.
        (fake_UnmountErr w,
         if fake_UnmountErr w = None
         then w\<lparr>fake_mountPoints := removeAll target (fake_mountPoints w)\<rparr> else w)),
     os_Stat = (\<lambda>w path.
        if fake_StatErr w \<noteq> None then fake_StatErr w
        else if path \<in> set (fake_dirs w) then None else Some (PathError ENOENT)),
     os_MkdirAll = (\<lambda>w path. (None, w\<lparr>fake_dirs := List.insert path (fake_dirs w)\<rparr>)),
     os_Remove = (\<lambda>w path.
        (fake_RemoveErr w,
         if fake_RemoveErr w = None then w\<lparr>fake_dirs := removeAll path (fake_dirs w)\<rparr> else w)),
     volume_SetVolumeOwnership = (\<lambda>w path fsGroup. (None, w)) \<rparr>"

definition fake_host :: volume_host where
  "fake_host = \<lparr>
     GetPluginDir = (\<lambda>pluginName. ''/var/lib/kubelet/plugins/'' @ pluginName),
     GetPodVolumeDir = (\<lambda>uid pluginName volName.
        ''/var/lib/kubelet/pods/'' @ uid @ ''/volumes/'' @ pluginName @ ''/'' @ volName),
     GetCloudProvider = None,
     GetNodeName = ''node-1'',
     EscapeQualifiedNameForDisk = (\<lambda>n. strings_ReplaceAll n ''/'' ''~''),
     MountsInGlobalPDPath = ''mounts'',
     path_Join = (\<lambda>elems. foldr (\<lambda>e acc. if acc = [] then e else e @ ''/'' @ acc) elems []) \<rparr>"

definition fake_empty :: fake_node where
  "fake_empty = \<lparr> fake_dirs = [], fake_mountPoints = [], fake_StatErr = None,
     fake_MountErr = None, fake_MountSticks = False, fake_UnmountErr = None, fake_RemoveErr = None \<rparr>"

definition fake_aws_mounter :: awsElasticBlockStoreMounter where
  "fake_aws_mounter = \<lparr> aws_podUID = ''poduid'', aws_volName = ''vol1'',
     aws_volumeID = ''aws://us-east-1a/vol-1234'', aws_partition = [], aws_fsType = ''ext4'',
     aws_readOnly = False, aws_mountOptions = [] \<rparr>"

definition fake_gce_mounter :: gcePersistentDiskMounter where
  "fake_gce_mounter = \<lparr> gce_podUID = ''poduid'', gce_volName = ''vol1'',
     gce_pdName = ''pd-1'', gce_partition = [], gce_readOnly = False, gce_mountOptions = [] \<rparr>"

definition fake_consts :: limit_consts where
  "fake_consts = \<lparr>
     EBSVolumeLimitKey = ''attachable-volumes-aws-ebs'',
     DefaultMaxEBSVolumes = 39,
     DefaultMaxEBSNitroVolumeLimit = 25,
     EBSNitroLimitRegex_matches = (\<lambda>t. strings_HasPrefix t ''c5'' \<or> strings_HasPrefix t ''m5''),
     GCEVolumeLimitKey = ''attachable-volumes-gce-pd'',
     aws_ProviderName = ''aws'',
     gcecloud_ProviderName = ''gce'' \<rparr>"

definition fake_cloud :: "string \<Rightarrow> cloudprovider_Instances option \<Rightarrow> volume_host" where
  "fake_cloud name instances =
     fake_host\<lparr>GetCloudProvider := Some \<lparr>ProviderName = name, Instances = instances\<rparr>\<rparr>"

definition fake_failing :: fake_node where
  "fake_failing = fake_empty\<lparr>fake_MountErr := Some (ErrorString ''mount failed''), fake_MountSticks := True\<rparr>"

definition fake_mounted :: fake_node where
  "fake_mounted = fake_empty\<lparr>fake_dirs := [''/d''], fake_mountPoints := [''/d'']\<rparr>"

definition fake_aws_trace :: "call list" where
  "fake_aws_trace =
     [IsLikelyNotMountPoint_call ''/d'' True (Some (PathError ENOENT)),
      MkdirAll_call ''/d'' None,
      Mount_call ''/var/lib/kubelet/plugins/kubernetes.io/aws-ebs/mounts/aws/us-east-1a/vol-1234''
        ''/d'' [] [''bind''] (Some (ErrorString ''mount failed'')),
      IsLikelyNotMountPoint_call ''/d'' False None, Unmount_call ''/d'' None,
      IsLikelyNotMountPoint_call ''/d'' True None, Remove_call ''/d'' None]"

definition fake_gce_trace :: "call list" where
  "fake_gce_trace =
     [IsLikelyNotMountPoint_call ''/d'' True (Some (PathError ENOENT)),
      MkdirAll_call ''/d'' None,
      Mount_call ''/var/lib/kubelet/plugins/kubernetes.io/gce-pd/mounts/pd-1''
        ''/d'' [] [''bind''] (Some (ErrorString ''mount failed'')),
      IsLikelyNotMountPoint_call ''/d'' False None, Unmount_call ''/d'' None,
      IsLikelyNotMountPoint_call ''/d'' True None, Remove_call ''/d'' None]"

definition fake_aws_cloud :: volume_host where
  "fake_aws_cloud = fake_cloud ''aws'' None"

definition fake_gce_cloud :: volume_host where
  "fake_gce_cloud = fake_cloud ''gce''
     (Some \<lparr>InstanceType = (\<lambda>nodeName. ([], Some (ErrorString ''instance not found'')))\<rparr>)"

definition fake_cni_ops :: "unit cni_ops" where
  "fake_cni_ops = \<lparr>
     host_GetNetNS = (\<lambda>w containerID. (''/proc/42/ns/net'', None)),
     host_GetPodPortMappings = (\<lambda>w containerID. ([], None)),
     bandwidth_ExtractPodBandwidthResources = (\<lambda>annotations. (None, None, None)),
     network_DefaultInterfaceName = ''eth0'',
     cni_AddNetworkList = (\<lambda>w netConf rt. ((Some ''ok'', None), w)),
     cni_DelNetworkList = (\<lambda>w netConf rt. (None, w)) \<rparr>"

definition fake_plugin_uninitialized :: cniNetworkPlugin where
  "fake_plugin_uninitialized = \<lparr> loNetwork = None, defaultNetwork = None,
     confDir = ''/etc/cni/net.d'', binDirs = [''/opt/cni/bin''], podCidr = [] \<rparr>"

definition fake_ipRanges_network :: cniNetwork where
  "fake_ipRanges_network = \<lparr> cniNetwork_name = ''mynet'',
     NetworkConfig = \<lparr> conf_Name = ''mynet'',
       conf_Plugins = [\<lparr> Network = \<lparr> net_Type = ''bridge'',
                                       net_Capabilities = [''ipRanges'' \<mapsto> True] \<rparr> \<rparr>] \<rparr> \<rparr>"

definition fake_plugin_no_cidr :: cniNetworkPlugin where
  "fake_plugin_no_cidr = fake_plugin_uninitialized\<lparr>defaultNetwork := Some fake_ipRanges_network\<rparr>"

definition fake_plain_dir :: fake_node where
  "fake_plain_dir = fake_empty\<lparr>fake_dirs := [''/d'']\<rparr>"

definition fake_nonempty :: fake_node where
  "fake_nonempty = fake_mounted\<lparr>fake_RemoveErr := Some (PathError ENOTEMPTY)\<rparr>"

text \<open>
  A node on which the disk of LUN 1 shows up as \<^verbatim>\<open>/dev/sdc\<close> once \<open>attached_after\<close>
  polling intervals have passed.
\<close>

record fake_azure_node =
  intervals_passed :: nat
  attached_after :: nat

definition fake_azure_ops :: "fake_azure_node azure_ops" where
  "fake_azure_ops = \<lparr>
     az_getVolumeSource = (\<lambda>spec.
        case spec_AzureDisk spec of
          Some src \<Rightarrow> (src, None)
        | None \<Rightarrow> (\<lparr>DiskName = [], DataDiskURI = []\<rparr>,
                    Some (ErrorString ''Spec does not reference an Azure disk volume type''))),
     az_getDiskController = None,
     az_GetHostName = ''node-1'',
     az_GOOS = ''linux'',
     az_GetDiskLun = (\<lambda>w diskName diskURI nodeName. (1, None)),
     az_getDiskLUN = (\<lambda>devicePath. (1, None)),
     az_scsiHostRescan = (\<lambda>w. w),
     az_findDiskByLun = (\<lambda>w lun.
        (if lun = 1 \<and> attached_after w \<le> intervals_passed w then ''/dev/sdc'' else [], None)),
     az_interval = (\<lambda>w. w\<lparr>intervals_passed := Suc (intervals_passed w)\<rparr>) \<rparr>"

definition fake_azure_spec :: volume_Spec where
  "fake_azure_spec = \<lparr> spec_Name = ''vol1'',
     spec_AzureDisk = Some \<lparr> DiskName = ''disk1'', DataDiskURI = ''https://example/disk1.vhd'' \<rparr> \<rparr>"

section \<open>Properties\<close>

lemmas node_call_defs = IsLikelyNotMountPoint_def IsNotMountPoint_def Mount_def Unmount_def
  Stat_def MkdirAll_def Remove_def SetVolumeOwnership_def

lemma awsebs_SetUpAt_failed_mount:
  assumes "awsebs_SetUpAt ops host b dir fsGroup (w, []) = (r, (w', tr))"
    and "Mount_call source target fstype options (Some e) \<in> set tr"
  shows "r = Some e \<and> length (filter is_Unmount_call tr) \<le> 1 \<and>
         (\<forall>t res. Unmount_call t res \<in> set tr \<longrightarrow> t = dir) \<and>
         length (filter is_Mount_call tr) = 1"
  using assms
  by (auto simp: awsebs_SetUpAt_def node_call_defs Let_def split: prod.splits if_splits)

lemma gcepd_SetUpAt_failed_mount:
  assumes "gcepd_SetUpAt ops host b dir fsGroup (w, []) = (r, (w', tr))"
    and "Mount_call source target fstype options (Some e) \<in> set tr"
  shows "r = Some e \<and> length (filter is_Unmount_call tr) \<le> 1 \<and>
         (\<forall>t res. Unmount_call t res \<in> set tr \<longrightarrow> t = dir) \<and>
         length (filter is_Mount_call tr) = 1"
  using assms
  by (auto simp: gcepd_SetUpAt_def node_call_defs Let_def split: prod.splits if_splits)

text \<open>
  C1. In every call to \<^verbatim>\<open>SetUpAt\<close> (AWS EBS and GCE PD) whose bind mount fails, that is,
  whose trace holds a \<^verbatim>\<open>Mount\<close> call that returned an error \<open>e\<close>: the call returns that
  error, it performs at most one \<^verbatim>\<open>Unmount\<close>, every \<^verbatim>\<open>Unmount\<close> is on the target
  directory, and \<^verbatim>\<open>Mount\<close> is called exactly once (no second attempt).
\<close>

theorem SetUpAt_failed_mount_cleanup:
  "(awsebs_SetUpAt ops host b dir fsGroup (w, []) = (r, (w', tr)) \<and>
    Mount_call source target fstype options (Some e) \<in> set tr \<longrightarrow>
      r = Some e \<and> length (filter is_Unmount_call tr) \<le> 1 \<and>
      (\<forall>t res. Unmount_call t res \<in> set tr \<longrightarrow> t = dir) \<and>
      length (filter is_Mount_call tr) = 1) \<and>
   (gcepd_SetUpAt ops host g dir fsGroup (w, []) = (r, (w', tr)) \<and>
    Mount_call source target fstype options (Some e) \<in> set tr \<longrightarrow>
      r = Some e \<and> length (filter is_Unmount_call tr) \<le> 1 \<and>
      (\<forall>t res. Unmount_call t res \<in> set tr \<longrightarrow> t = dir) \<and>
      length (filter is_Mount_call tr) = 1)"
proof (rule conjI)
  show "awsebs_SetUpAt ops host b dir fsGroup (w, []) = (r, (w', tr)) \<and>
    Mount_call source target fstype options (Some e) \<in> set tr \<longrightarrow>
      r = Some e \<and> length (filter is_Unmount_call tr) \<le> 1 \<and>
      (\<forall>t res. Unmount_call t res \<in> set tr \<longrightarrow> t = dir) \<and>
      length (filter is_Mount_call tr) = 1"
  proof (rule impI, elim conjE)
    assume "awsebs_SetUpAt ops host b dir fsGroup (w, []) = (r, (w', tr))"
      and "Mount_call source target fstype options (Some e) \<in> set tr"
    then show "r = Some e \<and> length (filter is_Unmount_call tr) \<le> 1 \<and>
      (\<forall>t res. Unmount_call t res \<in> set tr \<longrightarrow> t = dir) \<and>
      length (filter is_Mount_call tr) = 1"
      by (rule awsebs_SetUpAt_failed_mount)
  qed
next
  show "gcepd_SetUpAt ops host g dir fsGroup (w, []) = (r, (w', tr)) \<and>
    Mount_call source target fstype options (Some e) \<in> set tr \<longrightarrow>
      r = Some e \<and> length (filter is_Unmount_call tr) \<le> 1 \<and>
      (\<forall>t res. Unmount_call t res \<in> set tr \<longrightarrow> t = dir) \<and>
      length (filter is_Mount_call tr) = 1"
  proof (rule impI, elim conjE)
    assume "gcepd_SetUpAt ops host g dir fsGroup (w, []) = (r, (w', tr))"
      and "Mount_call source target fstype options (Some e) \<in> set tr"
    then show "r = Some e \<and> length (filter is_Unmount_call tr) \<le> 1 \<and>
      (\<forall>t res. Unmount_call t res \<in> set tr \<longrightarrow> t = dir) \<and>
      length (filter is_Mount_call tr) = 1"
      by (rule gcepd_SetUpAt_failed_mount)
  qed
qed

lemma fake_aws_run:
  "awsebs_SetUpAt fake_ops fake_host fake_aws_mounter ''/d'' None (fake_failing, []) =
     (Some (ErrorString ''mount failed''), (fake_failing, fake_aws_trace))"
  by (simp add: awsebs_SetUpAt_def node_call_defs fake_ops_def fake_IsLikelyNotMountPoint_def
      fake_failing_def fake_empty_def fake_host_def fake_aws_mounter_def JoinMountOptions_def
      awsebs_makeGlobalPDPath_def awsElasticBlockStorePluginName_def Let_def fake_aws_trace_def)

lemma fake_gce_run:
  "gcepd_SetUpAt fake_ops fake_host fake_gce_mounter ''/d'' None (fake_failing, []) =
     (Some (ErrorString ''mount failed''), (fake_failing, fake_gce_trace))"
  by (simp add: gcepd_SetUpAt_def node_call_defs fake_ops_def fake_IsLikelyNotMountPoint_def
      fake_failing_def fake_empty_def fake_host_def fake_gce_mounter_def JoinMountOptions_def
      makeGlobalPDName_def gcePersistentDiskPluginName_def Let_def fake_gce_trace_def)

theorem SetUpAt_failed_mount_cleanup_witness:
  "(awsebs_SetUpAt fake_ops fake_host fake_aws_mounter ''/d'' None (fake_failing, []) =
      (Some (ErrorString ''mount failed''), (fake_failing, fake_aws_trace)) \<and>
    Mount_call ''/var/lib/kubelet/plugins/kubernetes.io/aws-ebs/mounts/aws/us-east-1a/vol-1234''
        ''/d'' [] [''bind''] (Some (ErrorString ''mount failed'')) \<in> set fake_aws_trace \<and>
    length (filter is_Unmount_call fake_aws_trace) \<le> 1 \<and>
    length (filter is_Mount_call fake_aws_trace) = 1) \<and>
   (gcepd_SetUpAt fake_ops fake_host fake_gce_mounter ''/d'' None (fake_failing, []) =
      (Some (ErrorString ''mount failed''), (fake_failing, fake_gce_trace)) \<and>
    Mount_call ''/var/lib/kubelet/plugins/kubernetes.io/gce-pd/mounts/pd-1''
        ''/d'' [] [''bind''] (Some (ErrorString ''mount failed'')) \<in> set fake_gce_trace \<and>
    length (filter is_Unmount_call fake_gce_trace) \<le> 1 \<and>
    length (filter is_Mount_call fake_gce_trace) = 1)"
proof -
  have a: "Mount_call ''/var/lib/kubelet/plugins/kubernetes.io/aws-ebs/mounts/aws/us-east-1a/vol-1234''
        ''/d'' [] [''bind''] (Some (ErrorString ''mount failed'')) \<in> set fake_aws_trace"
    by (simp add: fake_aws_trace_def)
  have g: "Mount_call ''/var/lib/kubelet/plugins/kubernetes.io/gce-pd/mounts/pd-1''
        ''/d'' [] [''bind''] (Some (ErrorString ''mount failed'')) \<in> set fake_gce_trace"
    by (simp add: fake_gce_trace_def)
  note A = SetUpAt_failed_mount_cleanup [THEN conjunct1, rule_format, OF conjI [OF fake_aws_run a]]
  note G = SetUpAt_failed_mount_cleanup [THEN conjunct2, rule_format, OF conjI [OF fake_gce_run g]]
  from A have A1: "length (filter is_Unmount_call fake_aws_trace) \<le> 1"
    and A2: "length (filter is_Mount_call fake_aws_trace) = 1" by blast+
  from G have G1: "length (filter is_Unmount_call fake_gce_trace) \<le> 1"
    and G2: "length (filter is_Mount_call fake_gce_trace) = 1" by blast+
  show ?thesis
    by (intro conjI fake_aws_run fake_gce_run a g A1 A2 G1 G2)
qed

text \<open>
  C4. When \<^verbatim>\<open>IsLikelyNotMountPoint\<close> reports the directory as a mount point (not-mounted
  flag false, nil error), \<^verbatim>\<open>SetUpAt\<close> (AWS EBS and GCE PD) returns nil, the node state
  is the one it started from, and the only operation performed is that query: no
  \<^verbatim>\<open>MkdirAll\<close>, \<^verbatim>\<open>Mount\<close> or \<^verbatim>\<open>SetVolumeOwnership\<close>.
\<close>

theorem SetUpAt_already_mounted:
  "mounter_IsLikelyNotMountPoint ops w dir = (False, None) \<Longrightarrow>
     awsebs_SetUpAt ops host b dir fsGroup (w, tr) =
       (None, (w, tr @ [IsLikelyNotMountPoint_call dir False None])) \<and>
     gcepd_SetUpAt ops host g dir fsGroup (w, tr) =
       (None, (w, tr @ [IsLikelyNotMountPoint_call dir False None]))"
  by (simp add: awsebs_SetUpAt_def gcepd_SetUpAt_def IsLikelyNotMountPoint_def)

theorem SetUpAt_already_mounted_witness:
  "mounter_IsLikelyNotMountPoint fake_ops fake_mounted ''/d'' = (False, None) \<and>
   awsebs_SetUpAt fake_ops fake_host fake_aws_mounter ''/d'' None (fake_mounted, []) =
     (None, (fake_mounted, [IsLikelyNotMountPoint_call ''/d'' False None])) \<and>
   gcepd_SetUpAt fake_ops fake_host fake_gce_mounter ''/d'' None (fake_mounted, []) =
     (None, (fake_mounted, [IsLikelyNotMountPoint_call ''/d'' False None]))"
proof -
  have q: "mounter_IsLikelyNotMountPoint fake_ops fake_mounted ''/d'' = (False, None)"
    by (simp add: fake_ops_def fake_IsLikelyNotMountPoint_def fake_mounted_def fake_empty_def)
  from SetUpAt_already_mounted [OF q, of fake_host fake_aws_mounter None "[]" fake_gce_mounter]
  show ?thesis using q by simp
qed

text \<open>
  C2. When the cloud provider is present and is the expected one, and the lookup of the
  node's instance data fails (\<^verbatim>\<open>Instances()\<close> is not ok, or \<^verbatim>\<open>InstanceType\<close> returns an
  error), \<^verbatim>\<open>GetVolumeLimits\<close> returns the default limit map (\<^verbatim>\<open>DefaultMaxEBSVolumes\<close>
  for EBS, \<^verbatim>\<open>VolumeLimit16\<close> for GCE PD) and a nil error.
\<close>

theorem GetVolumeLimits_lookup_failure:
  assumes "GetCloudProvider host = Some cloud"
    and "Instances cloud = None \<or>
         (\<exists>instances t e. Instances cloud = Some instances \<and>
            InstanceType instances (GetNodeName host) = (t, Some e))"
  shows "(ProviderName cloud = aws_ProviderName k \<longrightarrow>
            awsebs_GetVolumeLimits k host =
              (Some [EBSVolumeLimitKey k \<mapsto> DefaultMaxEBSVolumes k], None)) \<and>
         (ProviderName cloud = gcecloud_ProviderName k \<longrightarrow>
            gcepd_GetVolumeLimits k host = (Some [GCEVolumeLimitKey k \<mapsto> VolumeLimit16], None))"
  using assms by (auto simp: awsebs_GetVolumeLimits_def gcepd_GetVolumeLimits_def)

theorem GetVolumeLimits_lookup_failure_witness:
  "awsebs_GetVolumeLimits fake_consts fake_aws_cloud =
     (Some [''attachable-volumes-aws-ebs'' \<mapsto> 39], None) \<and>
   gcepd_GetVolumeLimits fake_consts fake_gce_cloud =
     (Some [''attachable-volumes-gce-pd'' \<mapsto> 16], None)"
proof -
  have a1: "GetCloudProvider fake_aws_cloud = Some \<lparr>ProviderName = ''aws'', Instances = None\<rparr>"
    by (simp add: fake_aws_cloud_def fake_cloud_def)
  have a2: "Instances \<lparr>ProviderName = ''aws'', Instances = None\<rparr> = None \<or>
         (\<exists>instances t e. Instances \<lparr>ProviderName = ''aws'', Instances = None\<rparr> = Some instances \<and>
            InstanceType instances (GetNodeName fake_aws_cloud) = (t, Some e))"
    by simp
  let ?i = "\<lparr>InstanceType = (\<lambda>nodeName. ([], Some (ErrorString ''instance not found'')))\<rparr>"
  have g1: "GetCloudProvider fake_gce_cloud = Some \<lparr>ProviderName = ''gce'', Instances = Some ?i\<rparr>"
    by (simp add: fake_gce_cloud_def fake_cloud_def)
  have g2: "Instances \<lparr>ProviderName = ''gce'', Instances = Some ?i\<rparr> = None \<or>
         (\<exists>instances t e. Instances \<lparr>ProviderName = ''gce'', Instances = Some ?i\<rparr> = Some instances \<and>
            InstanceType instances (GetNodeName fake_gce_cloud) = (t, Some e))"
    by simp
  from GetVolumeLimits_lookup_failure [OF a1 a2, of fake_consts]
       GetVolumeLimits_lookup_failure [OF g1 g2, of fake_consts]
  show ?thesis by (simp add: fake_consts_def VolumeLimit16_def)
qed

lemma checkPodCIDR_ipRanges:
  "list_ex (\<lambda>p. Capability p ''ipRanges'') ps \<Longrightarrow>
     checkPodCIDR ps [] = Some (ErrorString ''no PodCIDR set'')"
  by (induction ps) auto

text \<open>
  C3. While the plugin is uninitialized (no default network, or a configuration that
  declares the \<^verbatim>\<open>ipRanges\<close> capability and an empty PodCIDR), \<^verbatim>\<open>SetUpPod\<close> returns a
  non-nil error and its trace is the one it started with: no network-namespace lookup
  and no CNI ADD has been performed.
\<close>

theorem SetUpPod_uninitialized:
  assumes "defaultNetwork plugin = None \<or>
           (\<exists>n. defaultNetwork plugin = Some n \<and> declares_ipRanges (NetworkConfig n) \<and>
                 podCidr plugin = [])"
  shows "\<exists>e. SetUpPod ops plugin namespace name containerID annotations (w, tr) =
               (Returns (Some e), (w, tr))"
  using assms
  by (auto simp: SetUpPod_def checkInitialized_def declares_ipRanges_def checkPodCIDR_ipRanges)

theorem SetUpPod_uninitialized_witness:
  "(\<exists>e. SetUpPod fake_cni_ops fake_plugin_uninitialized ''default'' ''pod-1'' ''c0ffee'' Map.empty ((), []) =
         (Returns (Some e), ((), []))) \<and>
   (defaultNetwork fake_plugin_no_cidr = Some fake_ipRanges_network \<and>
    declares_ipRanges (NetworkConfig fake_ipRanges_network) \<and> podCidr fake_plugin_no_cidr = [] \<and>
    (\<exists>e. SetUpPod fake_cni_ops fake_plugin_no_cidr ''default'' ''pod-1'' ''c0ffee'' Map.empty ((), []) =
         (Returns (Some e), ((), []))))"
proof -
  have u: "defaultNetwork fake_plugin_uninitialized = None \<or>
           (\<exists>n. defaultNetwork fake_plugin_uninitialized = Some n \<and>
                 declares_ipRanges (NetworkConfig n) \<and> podCidr fake_plugin_uninitialized = [])"
    by (simp add: fake_plugin_uninitialized_def)
  have n1: "defaultNetwork fake_plugin_no_cidr = Some fake_ipRanges_network"
    by (simp add: fake_plugin_no_cidr_def fake_plugin_uninitialized_def)
  have n2: "declares_ipRanges (NetworkConfig fake_ipRanges_network)"
    by (simp add: declares_ipRanges_def fake_ipRanges_network_def Capability_def)
  have n3: "podCidr fake_plugin_no_cidr = []"
    by (simp add: fake_plugin_no_cidr_def fake_plugin_uninitialized_def)
  have n: "defaultNetwork fake_plugin_no_cidr = None \<or>
           (\<exists>n. defaultNetwork fake_plugin_no_cidr = Some n \<and>
                 declares_ipRanges (NetworkConfig n) \<and> podCidr fake_plugin_no_cidr = [])"
    using n1 n2 n3 by simp
  show ?thesis
    using SetUpPod_uninitialized [OF u, of fake_cni_ops "''default''" "''pod-1''" "''c0ffee''" Map.empty "()" "[]"]
      SetUpPod_uninitialized [OF n, of fake_cni_ops "''default''" "''pod-1''" "''c0ffee''" Map.empty "()" "[]"]
      n1 n2 n3
    by blast
qed

lemma doUnmountMountPoint_after_unmount:
  assumes "doUnmountMountPoint ops mountPath ext corrupted (w, tr0) = (r, (w', tr))"
    and "Unmount_call mountPath None \<in> set tr" and "Unmount_call mountPath None \<notin> set tr0"
  shows "(\<exists>notMnt err. calls_after (Unmount_call mountPath None) tr =
              [IsLikelyNotMountPoint_call mountPath notMnt err] \<and> err \<noteq> None \<and> r = err) \<or>
         calls_after (Unmount_call mountPath None) tr =
              [IsLikelyNotMountPoint_call mountPath True None, Remove_call mountPath r] \<or>
         (calls_after (Unmount_call mountPath None) tr =
              [IsLikelyNotMountPoint_call mountPath False None] \<and>
            r = Some (ErrorString (''failed to unmount path '' @ mountPath)))"
proof -
  obtain n0 e0 where c0: "(if ext then mounter_IsNotMountPoint ops w mountPath
      else mounter_IsLikelyNotMountPoint ops w mountPath) = (n0, e0)" by (cases "(if ext then mounter_IsNotMountPoint ops w mountPath
      else mounter_IsLikelyNotMountPoint ops w mountPath)")
  obtain ue w1 where u: "mounter_Unmount ops w mountPath = (ue, w1)"
    by (cases "mounter_Unmount ops w mountPath")
  obtain n1 e1 where p: "mounter_IsLikelyNotMountPoint ops w1 mountPath = (n1, e1)"
    by (cases "mounter_IsLikelyNotMountPoint ops w1 mountPath")
  obtain re w2 where rm: "os_Remove ops w1 mountPath = (re, w2)"
    by (cases "os_Remove ops w1 mountPath")
  obtain re0 w20 where rm0: "os_Remove ops w mountPath = (re0, w20)"
    by (cases "os_Remove ops w mountPath")
  have dw: "\<And>xs. dropWhile (\<lambda>x. x \<noteq> Unmount_call mountPath None) (tr0 @ xs) =
      dropWhile (\<lambda>x. x \<noteq> Unmount_call mountPath None) xs"
    using assms(3) by (simp add: dropWhile_append)
  show ?thesis
    using assms(1) [symmetric] assms(2,3) c0 u p rm rm0
    by (cases corrupted; cases ext; cases n0; cases e0; cases ue; cases n1; cases e1)
       (auto simp add: doUnmountMountPoint_def node_call_defs calls_after_def dw)
qed

lemma UnmountMountPoint_not_exist:
  "os_IsNotExist (os_Stat ops w mountPath) \<Longrightarrow>
     UnmountMountPoint ops mountPath ext (w, []) =
       (None, (w, [Stat_call mountPath (os_Stat ops w mountPath)]))"
  by (auto simp: UnmountMountPoint_def PathExists_def Stat_def Let_def)

lemma UnmountMountPoint_not_mounted:
  assumes "os_Stat ops w mountPath = None"
    and "(if ext then mounter_IsNotMountPoint ops w mountPath
          else mounter_IsLikelyNotMountPoint ops w mountPath) = (True, None)"
  shows "UnmountMountPoint ops mountPath ext (w, []) =
       (fst (os_Remove ops w mountPath),
        (snd (os_Remove ops w mountPath),
         [Stat_call mountPath None,
          if ext then IsNotMountPoint_call mountPath True None
          else IsLikelyNotMountPoint_call mountPath True None,
          Remove_call mountPath (fst (os_Remove ops w mountPath))]))"
proof -
  obtain re w2 where rm: "os_Remove ops w mountPath = (re, w2)"
    by (cases "os_Remove ops w mountPath")
  show ?thesis
    using assms rm
    by (cases ext)
       (simp_all add: UnmountMountPoint_def PathExists_def doUnmountMountPoint_def node_call_defs)
qed

lemma UnmountMountPoint_after_unmount:
  assumes "UnmountMountPoint ops mountPath ext (w, []) = (r, (w', tr))"
    and "Unmount_call mountPath None \<in> set tr"
  shows "(\<exists>notMnt err. calls_after (Unmount_call mountPath None) tr =
              [IsLikelyNotMountPoint_call mountPath notMnt err] \<and> err \<noteq> None \<and> r = err) \<or>
         calls_after (Unmount_call mountPath None) tr =
              [IsLikelyNotMountPoint_call mountPath True None, Remove_call mountPath r] \<or>
         (calls_after (Unmount_call mountPath None) tr =
              [IsLikelyNotMountPoint_call mountPath False None] \<and>
            r = Some (ErrorString (''failed to unmount path '' @ mountPath)))"
proof -
  let ?se = "os_Stat ops w mountPath"
  let ?s1 = "(w, [Stat_call mountPath ?se])"
  have pe: "PathExists ops mountPath (w, []) =
      ((if ?se = None then (True, None) else if os_IsNotExist ?se then (False, None)
        else if IsCorruptedMnt ?se then (True, ?se) else (False, ?se)), ?s1)"
    by (simp add: PathExists_def Stat_def Let_def)
  have "\<exists>corrupted. doUnmountMountPoint ops mountPath ext corrupted ?s1 = (r, (w', tr))"
    using assms by (auto simp: UnmountMountPoint_def pe Let_def split: if_splits)
  then obtain corrupted where d: "doUnmountMountPoint ops mountPath ext corrupted ?s1 = (r, (w', tr))" ..
  have "Unmount_call mountPath None \<notin> set [Stat_call mountPath ?se]" by simp
  from doUnmountMountPoint_after_unmount [OF d assms(2) this] show ?thesis .
qed

text \<open>
  C10, as the code has it. \<^verbatim>\<open>UnmountMountPoint\<close> returns nil after the one \<^verbatim>\<open>Stat\<close>
  when the path does not exist. When the path exists and the mount-point check says it
  is not a mount point, it removes the directory and returns the result of the removal.
  After a successful \<^verbatim>\<open>Unmount\<close> it checks the path again: a failed check is returned
  as it is; a path that is no longer a mount point is removed and the result of the
  removal is returned; a path that still is a mount point gives the error
  \<^verbatim>\<open>failed to unmount path\<close>, and the directory is left in place.
\<close>

theorem UnmountMountPoint_outcomes:
  "(os_IsNotExist (os_Stat ops w mountPath) \<longrightarrow>
      UnmountMountPoint ops mountPath ext (w, []) =
        (None, (w, [Stat_call mountPath (os_Stat ops w mountPath)]))) \<and>
   (os_Stat ops w mountPath = None \<and>
    (if ext then mounter_IsNotMountPoint ops w mountPath
     else mounter_IsLikelyNotMountPoint ops w mountPath) = (True, None) \<longrightarrow>
      UnmountMountPoint ops mountPath ext (w, []) =
        (fst (os_Remove ops w mountPath),
         (snd (os_Remove ops w mountPath),
          [Stat_call mountPath None,
           if ext then IsNotMountPoint_call mountPath True None
           else IsLikelyNotMountPoint_call mountPath True None,
           Remove_call mountPath (fst (os_Remove ops w mountPath))]))) \<and>
   (UnmountMountPoint ops mountPath ext (w, []) = (r, (w', tr)) \<and>
    Unmount_call mountPath None \<in> set tr \<longrightarrow>
      (\<exists>notMnt err. calls_after (Unmount_call mountPath None) tr =
              [IsLikelyNotMountPoint_call mountPath notMnt err] \<and> err \<noteq> None \<and> r = err) \<or>
      calls_after (Unmount_call mountPath None) tr =
              [IsLikelyNotMountPoint_call mountPath True None, Remove_call mountPath r] \<or>
      (calls_after (Unmount_call mountPath None) tr =
              [IsLikelyNotMountPoint_call mountPath False None] \<and>
         r = Some (ErrorString (''failed to unmount path '' @ mountPath))))"
  using UnmountMountPoint_not_exist [of ops w mountPath ext]
    UnmountMountPoint_not_mounted [of ops w mountPath ext]
    UnmountMountPoint_after_unmount [of ops mountPath ext w r w' tr]
  by blast

lemma fake_unmount_run:
  "UnmountMountPoint fake_ops ''/d'' False (fake_mounted, []) =
     (None, (fake_empty,
       [Stat_call ''/d'' None, IsLikelyNotMountPoint_call ''/d'' False None,
        Unmount_call ''/d'' None, IsLikelyNotMountPoint_call ''/d'' True None,
        Remove_call ''/d'' None]))"
  by (simp add: UnmountMountPoint_def PathExists_def doUnmountMountPoint_def node_call_defs
      fake_ops_def fake_IsLikelyNotMountPoint_def fake_mounted_def fake_empty_def)

theorem UnmountMountPoint_outcomes_witness:
  "(os_IsNotExist (os_Stat fake_ops fake_empty ''/d'') \<and>
    UnmountMountPoint fake_ops ''/d'' False (fake_empty, []) =
      (None, (fake_empty, [Stat_call ''/d'' (Some (PathError ENOENT))]))) \<and>
   (os_Stat fake_ops fake_plain_dir ''/d'' = None \<and>
    mounter_IsLikelyNotMountPoint fake_ops fake_plain_dir ''/d'' = (True, None) \<and>
    UnmountMountPoint fake_ops ''/d'' False (fake_plain_dir, []) =
      (None, (fake_empty,
        [Stat_call ''/d'' None, IsLikelyNotMountPoint_call ''/d'' True None,
         Remove_call ''/d'' None]))) \<and>
   (Unmount_call ''/d'' None \<in> set
       [Stat_call ''/d'' None, IsLikelyNotMountPoint_call ''/d'' False None,
        Unmount_call ''/d'' None, IsLikelyNotMountPoint_call ''/d'' True None,
        Remove_call ''/d'' None] \<and>
    calls_after (Unmount_call ''/d'' None)
       [Stat_call ''/d'' None, IsLikelyNotMountPoint_call ''/d'' False None,
        Unmount_call ''/d'' None, IsLikelyNotMountPoint_call ''/d'' True None,
        Remove_call ''/d'' None] =
      [IsLikelyNotMountPoint_call ''/d'' True None, Remove_call ''/d'' None])"
proof -
  have h1: "os_IsNotExist (os_Stat fake_ops fake_empty ''/d'')"
    by (simp add: fake_ops_def fake_empty_def)
  have s1: "os_Stat fake_ops fake_empty ''/d'' = Some (PathError ENOENT)"
    by (simp add: fake_ops_def fake_empty_def)
  have h2: "os_Stat fake_ops fake_plain_dir ''/d'' = None"
    by (simp add: fake_ops_def fake_plain_dir_def fake_empty_def)
  have h3: "mounter_IsLikelyNotMountPoint fake_ops fake_plain_dir ''/d'' = (True, None)"
    by (simp add: fake_ops_def fake_IsLikelyNotMountPoint_def fake_plain_dir_def fake_empty_def)
  have h3': "(if False then mounter_IsNotMountPoint fake_ops fake_plain_dir ''/d''
      else mounter_IsLikelyNotMountPoint fake_ops fake_plain_dir ''/d'') = (True, None)"
    using h3 by simp
  have rm: "os_Remove fake_ops fake_plain_dir ''/d'' = (None, fake_empty)"
    by (simp add: fake_ops_def fake_plain_dir_def fake_empty_def)
  have h4: "Unmount_call ''/d'' None \<in> set
       [Stat_call ''/d'' None, IsLikelyNotMountPoint_call ''/d'' False None,
        Unmount_call ''/d'' None, IsLikelyNotMountPoint_call ''/d'' True None,
        Remove_call ''/d'' None]"
    by simp
  note T1 = UnmountMountPoint_outcomes [THEN conjunct1, rule_format, OF h1, of False]
  note T2 = UnmountMountPoint_outcomes [THEN conjunct2, THEN conjunct1, rule_format,
      OF conjI [OF h2 h3']]
  note T3 = UnmountMountPoint_outcomes [THEN conjunct2, THEN conjunct2, rule_format,
      OF conjI [OF fake_unmount_run h4]]
  from T1 have c1: "UnmountMountPoint fake_ops ''/d'' False (fake_empty, []) =
      (None, (fake_empty, [Stat_call ''/d'' (Some (PathError ENOENT))]))"
    by (simp add: s1)
  from T2 have c2: "UnmountMountPoint fake_ops ''/d'' False (fake_plain_dir, []) =
      (None, (fake_empty,
        [Stat_call ''/d'' None, IsLikelyNotMountPoint_call ''/d'' True None,
         Remove_call ''/d'' None]))"
    by (simp add: rm)
  from T3 have c3: "calls_after (Unmount_call ''/d'' None)
       [Stat_call ''/d'' None, IsLikelyNotMountPoint_call ''/d'' False None,
        Unmount_call ''/d'' None, IsLikelyNotMountPoint_call ''/d'' True None,
        Remove_call ''/d'' None] =
      [IsLikelyNotMountPoint_call ''/d'' True None, Remove_call ''/d'' None]"
    by (simp add: calls_after_def)
  show ?thesis
    by (intro conjI h1 c1 h2 h3 c2 h4 c3)
qed

text \<open>
  C10 as stated fails: after a successful unmount, and with the path no longer a mount
  point, an error is returned all the same when the removal of the directory fails
  (here: the directory is not empty).
\<close>

theorem UnmountMountPoint_error_without_mount_point:
  "UnmountMountPoint fake_ops ''/d'' False (fake_nonempty, []) =
     (Some (PathError ENOTEMPTY), (fake_nonempty\<lparr>fake_mountPoints := []\<rparr>,
       [Stat_call ''/d'' None, IsLikelyNotMountPoint_call ''/d'' False None,
        Unmount_call ''/d'' None, IsLikelyNotMountPoint_call ''/d'' True None,
        Remove_call ''/d'' (Some (PathError ENOTEMPTY))])) \<and>
   mounter_IsLikelyNotMountPoint fake_ops (fake_nonempty\<lparr>fake_mountPoints := []\<rparr>) ''/d'' =
     (True, None)"
  by (simp add: UnmountMountPoint_def PathExists_def doUnmountMountPoint_def node_call_defs
      fake_ops_def fake_IsLikelyNotMountPoint_def fake_nonempty_def fake_mounted_def fake_empty_def)

lemma wait_Poll_loop_decided:
  assumes "\<And>s. fst (condition s) \<noteq> (False, None)"
  shows "wait_Poll_loop n tick condition s =
     (case condition (tick s) of ((ok, err), s') \<Rightarrow> if err \<noteq> None then (err, s') else (None, s'))"
proof -
  obtain ok err s' where c: "condition (tick s) = ((ok, err), s')"
    by (cases "condition (tick s)") auto
  with assms [of "tick s"] have "err = None \<Longrightarrow> ok" by auto
  with c show ?thesis by (cases n) auto
qed

lemma WaitForAttach_condition_decides:
  "fst (WaitForAttach_condition ops nodeName diskName lun st) \<noteq> (False, None)"
  by (auto simp: WaitForAttach_condition_def findDiskByLun_def fmt_Errorf_def split: prod.splits)

lemma Itoa_1: "strconv_Itoa 1 = ''1''"
  by code_simp

text \<open>
  C8: the code does not do what the claim says. With a timeout of ten minutes and a disk
  that shows up after three polling intervals, \<^verbatim>\<open>WaitForAttach\<close> looks for the device
  once, after the first interval, and returns the error "failed within timeout" with an
  empty path: the condition function returns an error when the device is not there yet,
  and an error from the condition ends \<^verbatim>\<open>wait.Poll\<close>.
\<close>

theorem WaitForAttach_gives_up_at_first_check:
  "WaitForAttach fake_azure_ops fake_azure_spec ''1'' (600 * time_Second)
       (\<lparr>intervals_passed = 0, attached_after = 3\<rparr>, []) =
     (([], Some (ErrorString
         ''azureDisk - WaitForAttach failed within timeout node (node-1) diskId:(disk1) lun:(1)'')),
      (\<lparr>intervals_passed = 1, attached_after = 3\<rparr>,
       [scsiHostRescan_call, interval_call, findDiskByLun_call 1 [] None])) \<and>
   az_findDiskByLun fake_azure_ops \<lparr>intervals_passed = 3, attached_after = 3\<rparr> 1 =
     (''/dev/sdc'', None)"
  by (simp add: WaitForAttach_def wait_Poll_def
      wait_Poll_loop_decided [OF WaitForAttach_condition_decides]
      WaitForAttach_condition_def findDiskByLun_def scsiHostRescan_def interval_passes_def
      fake_azure_ops_def fake_azure_spec_def Itoa_1)


text \<open>
  Whatever the timeout and the node, \<^verbatim>\<open>WaitForAttach\<close> looks for the device at most once.
\<close>

lemma WaitForAttach_poll_trace:
  assumes "wait_Poll i t (\<lambda>(p, s). (p, interval_passes ops s))
             (WaitForAttach_condition ops nodeName diskName lun) (p0, (w, tr)) = (r, (p', (w', tr')))"
  shows "\<exists>path err. tr' = tr @ [interval_call, findDiskByLun_call lun path err]"
proof -
  obtain path err where f: "az_findDiskByLun ops (az_interval ops w) lun = (path, err)"
    by (cases "az_findDiskByLun ops (az_interval ops w) lun")
  show ?thesis
    using assms [symmetric] f
    by (cases err; cases "path = []")
       (simp_all add: wait_Poll_def wait_Poll_loop_decided [OF WaitForAttach_condition_decides]
          WaitForAttach_condition_def findDiskByLun_def interval_passes_def fmt_Errorf_def)
qed

lemma WaitForAttach_checks_once:
  "length (filter is_findDiskByLun_call
      (snd (snd (WaitForAttach ops spec devicePath timeout (w, []))))) \<le> 1"
proof -
  obtain vs e0 where a: "az_getVolumeSource ops spec = (vs, e0)"
    by (cases "az_getVolumeSource ops spec")
  let ?node = "az_GetHostName ops"
  obtain l e1 s1 where b: "(if az_GOOS ops = ''windows''
       then GetDiskLun ops (DiskName vs) (DataDiskURI vs) ?node (w, [])
       else (az_getDiskLUN ops devicePath, (w, []))) = ((l, e1), s1)"
    by (metis surj_pair)
  obtain w1 tr1 where s1: "s1 = (w1, tr1)" by (cases s1)
  have tr1: "filter is_findDiskByLun_call tr1 = []"
    using b s1 by (auto simp: GetDiskLun_def split: if_splits prod.splits)
  obtain r p' w' tr' where c: "wait_Poll (1 * time_Second) timeout (\<lambda>(p, s). (p, interval_passes ops s))
         (WaitForAttach_condition ops ?node (DiskName vs) l)
         ([], (az_scsiHostRescan ops w1, tr1 @ [scsiHostRescan_call])) = (r, (p', (w', tr')))"
    by (metis surj_pair)
  from WaitForAttach_poll_trace [OF c] obtain path err
    where tr': "tr' = (tr1 @ [scsiHostRescan_call]) @ [interval_call, findDiskByLun_call l path err]"
    by blast
  show ?thesis
    using a b s1 c tr1
    by (cases e0; cases "az_getDiskController ops"; cases e1)
       (simp_all add: WaitForAttach_def scsiHostRescan_def tr' Let_def)
qed

text \<open>
  C7, on the cache as modelled from the spec: after \<^verbatim>\<open>getOrCreate\<close> or \<^verbatim>\<open>set\<close> on a key,
  \<^verbatim>\<open>get\<close> on that key returns the entry and true; after \<^verbatim>\<open>delete\<close> it returns false;
  \<^verbatim>\<open>ListKeys\<close> has no duplicates and holds exactly the keys that \<^verbatim>\<open>get\<close> finds;
  \<^verbatim>\<open>allServices\<close> holds one state for each of these keys, the state of its entry.
\<close>

theorem serviceCache_consistent:
  "sc_get (snd (sc_getOrCreate sc k)) k = (Some (fst (sc_getOrCreate sc k)), True) \<and>
   sc_get (sc_set sc k v) k = (Some v, True) \<and>
   sc_get (sc_delete sc k) k = (None, False) \<and>
   distinct (sc_ListKeys sc) \<and>
   set (sc_ListKeys sc) = {key. snd (sc_get sc key)} \<and>
   sc_allServices sc = map (\<lambda>key. fst (sc_GetByKey sc key)) (sc_ListKeys sc)"
proof -
  have keys: "set (sc_ListKeys sc) = {key. snd (sc_get sc key)}"
    by (auto simp: sc_ListKeys_def sc_get_def DAList.lookup.rep_eq map_of_eq_None_iff
        split: option.splits)
  have m: "\<And>kv. kv \<in> set (DAList.impl_of sc) \<Longrightarrow>
      map_of (DAList.impl_of sc) (fst kv) = Some (snd kv)"
    by (simp add: map_of_is_SomeI)
  have "\<And>kv. kv \<in> set (DAList.impl_of sc) \<Longrightarrow>
      fst (sc_GetByKey sc (fst kv)) = cs_state (snd kv)"
    by (simp add: sc_GetByKey_def DAList.lookup.rep_eq m)
  then have all: "sc_allServices sc = map (\<lambda>key. fst (sc_GetByKey sc key)) (sc_ListKeys sc)"
    by (simp add: sc_allServices_def sc_ListKeys_def)
  have goc: "sc_get (snd (sc_getOrCreate sc k)) k = (Some (fst (sc_getOrCreate sc k)), True)"
    by (simp add: sc_get_def sc_getOrCreate_def split: option.splits)
  have st: "sc_get (sc_set sc k v) k = (Some v, True)"
    by (simp add: sc_get_def sc_set_def)
  have del: "sc_get (sc_delete sc k) k = (None, False)"
    by (simp add: sc_get_def sc_delete_def)
  have dist: "distinct (sc_ListKeys sc)"
    by (simp add: sc_ListKeys_def)
  from goc st del dist keys all show ?thesis by blast
qed

text \<open>
  C5, on the commands as modelled from the spec: for a node the server knows, cordon
  leaves the node with \<^verbatim>\<open>Spec.Unschedulable\<close> true and nothing else changed, uncordon with
  \<^verbatim>\<open>Spec.Unschedulable\<close> false and nothing else changed; cordon on a cordoned node and
  uncordon on a schedulable node leave the nodes as they are and send no patch.
\<close>

theorem cordon_uncordon_patch:
  assumes "nodes nodeName = Some node"
  shows "(\<exists>nodes' patched. cordon nodes nodeName = Inr (nodes', patched) \<and>
            nodes' = nodes(nodeName \<mapsto> node\<lparr>node_Spec := (node_Spec node)\<lparr>Unschedulable := True\<rparr>\<rparr>) \<and>
            (Unschedulable (node_Spec node) \<longrightarrow> nodes' = nodes \<and> \<not> patched)) \<and>
         (\<exists>nodes' patched. uncordon nodes nodeName = Inr (nodes', patched) \<and>
            nodes' = nodes(nodeName \<mapsto> node\<lparr>node_Spec := (node_Spec node)\<lparr>Unschedulable := False\<rparr>\<rparr>) \<and>
            (\<not> Unschedulable (node_Spec node) \<longrightarrow> nodes' = nodes \<and> \<not> patched))"
  using assms
  by (auto simp: cordon_def uncordon_def RunCordonOrUncordon_def fun_upd_idem_iff)

theorem cordon_uncordon_patch_witness:
  "cordon [''node'' \<mapsto> test_node] ''node'' = Inr ([''node'' \<mapsto> cordoned_node], True) \<and>
   uncordon [''node'' \<mapsto> test_node] ''node'' = Inr ([''node'' \<mapsto> test_node], False) \<and>
   cordon [''node'' \<mapsto> cordoned_node] ''node'' = Inr ([''node'' \<mapsto> cordoned_node], False) \<and>
   uncordon [''node'' \<mapsto> cordoned_node] ''node'' = Inr ([''node'' \<mapsto> test_node], True)"
proof -
  have a: "[''node'' \<mapsto> test_node] ''node'' = Some test_node" by simp
  have b: "[''node'' \<mapsto> cordoned_node] ''node'' = Some cordoned_node" by simp
  from cordon_uncordon_patch [of "[''node'' \<mapsto> test_node]" "''node''" test_node, OF a]
    cordon_uncordon_patch [of "[''node'' \<mapsto> cordoned_node]" "''node''" cordoned_node, OF b]
  show ?thesis
    by (auto simp: cordoned_node_def test_node_def cordon_def uncordon_def RunCordonOrUncordon_def)
qed

text \<open>The model of drain gives what every row of the table of \<^verbatim>\<open>TestDrain\<close> expects.\<close>

lemma drain_model_agrees_with_TestDrain: "list_all row_holds drain_tests"
  by (simp add: drain_tests_def row_holds_def RunDrain_def RunCordonOrUncordon_def
      getPodsForDeletion_def pod_filters_def daemonsetFilter_def mirrorPodFilter_def
      localStorageFilter_def unreplicatedFilter_def finished_def
      test_node_def cordoned_node_def naked_pod_def rc_pod_def ds_pod_def ds_terminated_pod_def
      ds_pod_with_emptyDir_def orphaned_ds_pod_def job_pod_def
      terminated_job_pod_with_local_storage_def rs_pod_def emptydir_pod_def
      emptydir_terminated_pod_def no_flags_def)











end
